theory Spec2Isabelle
  imports Complex_Main
begin

section \<open>JavaScript strings\<close>

text \<open>
  Strings are lists of characters. The texts the pipeline handles after \<open>cleanText\<close> are
  ASCII (letters, digits, underscore, blanks and \<open>. , ! ? -\<close>), so a character is one
  code unit and \<open>length\<close> is the \<open>.length\<close> of the source. \<open>String.prototype.trim\<close> removes
  white space and line terminators at both ends; on ASCII these are the six characters
  below. It also removes blanks beyond ASCII (U+00A0 and others), which \<open>trim\<close> here
  keeps: \<open>trim\<close> is the source's on texts of ASCII characters only, and a statement about
  a text that has not been cleaned, the query of the chat route, says so with
  \<open>ascii_text\<close>.
\<close>

definition is_space :: "char \<Rightarrow> bool" where
  "is_space c \<longleftrightarrow> c = CHR '' '' \<or> c = CHR 0x09 \<or> c = CHR 0x0A \<or> c = CHR 0x0B
     \<or> c = CHR 0x0C \<or> c = CHR 0x0D"

definition trim :: "string \<Rightarrow> string" where
  "trim s = rev (dropWhile is_space (rev (dropWhile is_space s)))"

text \<open>A text of ASCII characters: every code unit is below 128.\<close>

definition ascii_text :: "string \<Rightarrow> bool" where
  "ascii_text s = list_all (\<lambda>c. \<not> digit7 c) s"

text \<open>\<open>Array.prototype.join\<close> on an array of strings.\<close>

fun join :: "string \<Rightarrow> string list \<Rightarrow> string" where
  "join sep [] = []"
| "join sep [x] = x"
| "join sep (x # y # ys) = x @ sep @ join sep (y # ys)"

section \<open>utils/textProcessing.ts: the chunker\<close>

definition is_terminator :: "char \<Rightarrow> bool" where
  "is_terminator c \<longleftrightarrow> c = CHR ''.'' \<or> c = CHR ''!'' \<or> c = CHR ''?''"

text \<open>
  \<open>text.split(/[.!?]+/)\<close>: the pieces between maximal runs of terminators. A run at the
  start or at the end of the text gives an empty first or last piece, and the empty text
  gives one empty piece, as in JavaScript. The first argument is the piece read so far.
\<close>

function split_terminators :: "string \<Rightarrow> string \<Rightarrow> string list" where
  "split_terminators cur [] = [cur]"
| "split_terminators cur (c # cs) =
     (if is_terminator c then cur # split_terminators [] (dropWhile is_terminator cs)
      else split_terminators (cur @ [c]) cs)"
  by pat_completeness auto
termination
  by (relation "measure (\<lambda>(cur, s). length s)")
     (auto simp: length_dropWhile_le less_Suc_eq_le)

text \<open>
  The sentences the loop runs over:
  \<open>text.split(/[.!?]+/).filter(s => s.trim().length > 0)\<close>.
\<close>

definition sentences_of :: "string \<Rightarrow> string list" where
  "sentences_of text = filter (\<lambda>s. length (trim s) > 0) (split_terminators [] text)"

text \<open>
  The loop of \<open>splitTextIntoChunks\<close>, one call per sentence, on the state
  \<open>(chunks, currentChunk)\<close>. The estimate is \<open>(currentChunk + trimmedSentence).length / 4\<close>,
  a division of numbers, not of integers: it is kept as a real.
\<close>

fun chunk_loop :: "real \<Rightarrow> string list \<Rightarrow> string \<Rightarrow> string list \<Rightarrow> string list \<times> string" where
  "chunk_loop maxTokens chunks currentChunk [] = (chunks, currentChunk)"
| "chunk_loop maxTokens chunks currentChunk (sentence # rest) =
     (let trimmedSentence = trim sentence in
      if trimmedSentence = [] then chunk_loop maxTokens chunks currentChunk rest
      else
        let estimatedTokens = real (length (currentChunk @ trimmedSentence)) / 4 in
        if estimatedTokens > maxTokens \<and> currentChunk \<noteq> []
        then chunk_loop maxTokens (chunks @ [trim currentChunk]) trimmedSentence rest
        else chunk_loop maxTokens chunks
               (currentChunk @ (if currentChunk \<noteq> [] then ''. '' else []) @ trimmedSentence)
               rest)"

definition splitTextIntoChunks :: "string \<Rightarrow> real \<Rightarrow> string list" where
  "splitTextIntoChunks text maxTokens =
     (case chunk_loop maxTokens [] [] (sentences_of text) of
        (chunks, currentChunk) \<Rightarrow>
          if trim currentChunk \<noteq> [] then chunks @ [trim currentChunk] else chunks)"

section \<open>services/openai.ts: the shared retry wrapper\<close>

text \<open>
  What \<open>withRetries\<close> reads of a value thrown by the provider's client: the optional
  fields \<open>status\<close>, \<open>response.status\<close>, \<open>code\<close>, \<open>error.code\<close>,
  \<open>response.data.error.code\<close>, \<open>message\<close> and \<open>error.message\<close>. An absent field is \<open>None\<close>.
  \<open>new Error(m)\<close> has the message only.
\<close>

record thrown =
  err_status :: "int option"
  err_response_status :: "int option"
  err_code :: "string option"
  err_error_code :: "string option"
  err_response_error_code :: "string option"
  err_message :: "string option"
  err_error_message :: "string option"

definition new_Error :: "string \<Rightarrow> thrown" where
  "new_Error m = \<lparr>err_status = None, err_response_status = None, err_code = None,
     err_error_code = None, err_response_error_code = None, err_message = Some m,
     err_error_message = None\<rparr>"

text \<open>JavaScript truthiness of an optional number and of an optional string, and \<open>a || b\<close>.\<close>

definition truthy_num :: "int option \<Rightarrow> bool" where
  "truthy_num x = (case x of None \<Rightarrow> False | Some n \<Rightarrow> n \<noteq> 0)"

definition truthy_str :: "string option \<Rightarrow> bool" where
  "truthy_str x = (case x of None \<Rightarrow> False | Some t \<Rightarrow> t \<noteq> [])"

definition str_of :: "string option \<Rightarrow> string" where
  "str_of x = (case x of None \<Rightarrow> [] | Some t \<Rightarrow> t)"

definition or_num :: "int option \<Rightarrow> int option \<Rightarrow> int option" where
  "or_num a b = (if truthy_num a then a else b)"

definition or_str :: "string option \<Rightarrow> string option \<Rightarrow> string option" where
  "or_str a b = (if truthy_str a then a else b)"

text \<open>
  \<open>/quota/i.test(message)\<close>: the five letters, in either case, somewhere in the message.
\<close>

fun quota_at :: "string \<Rightarrow> bool" where
  "quota_at (c1 # c2 # c3 # c4 # c5 # rest) \<longleftrightarrow>
     (c1 = CHR ''q'' \<or> c1 = CHR ''Q'') \<and> (c2 = CHR ''u'' \<or> c2 = CHR ''U'') \<and>
     (c3 = CHR ''o'' \<or> c3 = CHR ''O'') \<and> (c4 = CHR ''t'' \<or> c4 = CHR ''T'') \<and>
     (c5 = CHR ''a'' \<or> c5 = CHR ''A'')"
| "quota_at s \<longleftrightarrow> False"

fun quota_test :: "string \<Rightarrow> bool" where
  "quota_test [] \<longleftrightarrow> False"
| "quota_test (c # cs) \<longleftrightarrow> quota_at (c # cs) \<or> quota_test cs"

definition status_of :: "thrown \<Rightarrow> int option" where
  "status_of err = or_num (err_status err) (err_response_status err)"

definition code_of :: "thrown \<Rightarrow> string option" where
  "code_of err = or_str (or_str (err_code err) (err_error_code err)) (err_response_error_code err)"

definition message_of :: "thrown \<Rightarrow> string" where
  "message_of err =
     (case or_str (or_str (err_message err) (err_error_message err)) (Some ''Unknown error'') of
        Some m \<Rightarrow> m | None \<Rightarrow> [])"

definition is_quota :: "thrown \<Rightarrow> bool" where
  "is_quota err \<longleftrightarrow> code_of err = Some ''insufficient_quota'' \<or> quota_test (message_of err)"

definition quota_error :: thrown where
  "quota_error = (new_Error ''OpenAI quota exceeded'')
     \<lparr>err_status := Some 429, err_code := Some ''insufficient_quota''\<rparr>"

definition is_5xx :: "int option \<Rightarrow> bool" where
  "is_5xx st = (case st of None \<Rightarrow> False | Some n \<Rightarrow> 500 \<le> n \<and> n < 600)"

record retry_options =
  retries :: "int option"
  baseDelayMs :: "int option"

definition maxRetries_of :: "retry_options option \<Rightarrow> int" where
  "maxRetries_of options =
     (case options of None \<Rightarrow> 5
      | Some opts \<Rightarrow> (case retries opts of None \<Rightarrow> 5 | Some r \<Rightarrow> r))"

text \<open>
  The operation \<open>fn\<close> is a call to the provider: it reads and changes the provider's
  state \<open>'s\<close> and either throws (\<open>Inl\<close>) or returns (\<open>Inr\<close>). The loop is the
  \<open>while (true)\<close> of \<open>withRetries\<close>; \<open>calls\<close> counts the invocations of \<open>fn\<close>. The waits
  between attempts (\<open>Retry-After\<close>, or \<open>baseDelayMs * 2 ^ attempt\<close>) only take time and
  are left out.
\<close>

function withRetries_loop ::
  "('s \<Rightarrow> (thrown + 'a) \<times> 's) \<Rightarrow> int \<Rightarrow> int \<Rightarrow> 's \<Rightarrow> nat \<Rightarrow> (thrown + 'a) \<times> 's \<times> nat" where
  "withRetries_loop fn maxRetries attempt s calls =
     (case fn s of
        (Inr v, s') \<Rightarrow> (Inr v, s', Suc calls)
      | (Inl err, s') \<Rightarrow>
          if is_quota err then (Inl quota_error, s', Suc calls)
          else if status_of err = Some 429 \<and> attempt < maxRetries
          then withRetries_loop fn maxRetries (attempt + 1) s' (Suc calls)
          else if is_5xx (status_of err) \<and> attempt < maxRetries
          then withRetries_loop fn maxRetries (attempt + 1) s' (Suc calls)
          else (Inl err, s', Suc calls))"
  by pat_completeness auto
termination
  by (relation "measure (\<lambda>(fn, maxRetries, attempt, s, calls). nat (maxRetries - attempt))") auto

definition withRetries ::
  "('s \<Rightarrow> (thrown + 'a) \<times> 's) \<Rightarrow> retry_options option \<Rightarrow> 's \<Rightarrow> (thrown + 'a) \<times> 's \<times> nat" where
  "withRetries fn options s = withRetries_loop fn (maxRetries_of options) 0 s 0"

section \<open>services/openai.ts: embeddings and chat completion\<close>

text \<open>
  The provider's embedding endpoint takes one text or an array of texts and answers with
  \<open>data\<close>, the vectors, and an optional \<open>usage.total_tokens\<close>. Vectors are lists of
  reals.
\<close>

datatype embed_input = Single string | Batch "string list"

record embeddings_api_response =
  emb_data :: "real list list"
  emb_usage_total_tokens :: "nat option"

record EmbeddingResponse =
  embedding :: "real list"
  tokens :: int

text \<open>
  The \<open>catch\<close> of every function of this service: \<open>throw new Error(error?.message || fallback)\<close>.
\<close>

definition rethrow :: "thrown \<Rightarrow> string \<Rightarrow> thrown" where
  "rethrow error fallback =
     new_Error (case or_str (err_message error) (Some fallback) of Some m \<Rightarrow> m | None \<Rightarrow> fallback)"

text \<open>\<open>Math.round(totalTokens / n)\<close>: the nearest integer, a half rounded up.\<close>

definition perTextTokens_of :: "nat \<Rightarrow> nat \<Rightarrow> int" where
  "perTextTokens_of totalTokens n = (if n > 0 then \<lfloor>real totalTokens / real n + 1 / 2\<rfloor> else 0)"

definition totalTokens_of :: "embeddings_api_response \<Rightarrow> nat" where
  "totalTokens_of response = (case emb_usage_total_tokens response of None \<Rightarrow> 0 | Some t \<Rightarrow> t)"

text \<open>
  \<open>generateEmbedding\<close>. Reading \<open>response.data[0].embedding\<close> of an empty \<open>data\<close> is a
  TypeError, caught and thrown again with its message like any other error.
\<close>

definition generateEmbedding ::
  "(embed_input \<Rightarrow> 's \<Rightarrow> (thrown + embeddings_api_response) \<times> 's) \<Rightarrow> string \<Rightarrow> 's
     \<Rightarrow> (thrown + EmbeddingResponse) \<times> 's \<times> nat" where
  "generateEmbedding create text s =
     (if trim text = [] then (Inl (rethrow (new_Error ''Text cannot be empty'') ''Failed to generate embedding''), s, 0)
      else
        (case withRetries (create (Single text)) None s of
           (Inr response, s', n) \<Rightarrow>
             (case emb_data response of
                [] \<Rightarrow> (Inl (rethrow (new_Error ''Cannot read properties of undefined (reading 'embedding')'')
                              ''Failed to generate embedding''), s', n)
              | e # rest \<Rightarrow> (Inr \<lparr>embedding = e, tokens = int (totalTokens_of response)\<rparr>, s', n))
         | (Inl error, s', n) \<Rightarrow> (Inl (rethrow error ''Failed to generate embedding''), s', n)))"

text \<open>
  \<open>generateEmbeddings\<close>: the empty array and an array with no text left after the
  filter both return \<open>[]\<close> without a call; otherwise one call for the texts that are left,
  and one result per vector of the answer, in the answer's order.
\<close>

definition generateEmbeddings ::
  "(embed_input \<Rightarrow> 's \<Rightarrow> (thrown + embeddings_api_response) \<times> 's) \<Rightarrow> string list \<Rightarrow> 's
     \<Rightarrow> (thrown + EmbeddingResponse list) \<times> 's \<times> nat" where
  "generateEmbeddings create texts s =
     (if texts = [] then (Inr [], s, 0)
      else
        let validTexts = filter (\<lambda>text. length (trim text) > 0) texts in
        if validTexts = [] then (Inr [], s, 0)
        else
          (case withRetries (create (Batch validTexts)) None s of
             (Inr response, s', n) \<Rightarrow>
               (let totalTokens = totalTokens_of response;
                    perTextTokens = perTextTokens_of totalTokens (length validTexts)
                in (Inr (map (\<lambda>item. \<lparr>embedding = item, tokens = perTextTokens\<rparr>) (emb_data response)),
                    s', n))
           | (Inl error, s', n) \<Rightarrow> (Inl (rethrow error ''Failed to generate embeddings''), s', n)))"

datatype role = System | User

record chat_message =
  msg_role :: role
  msg_content :: string

record chat_request =
  req_messages :: "chat_message list"
  req_max_tokens :: nat
  req_temperature :: real

text \<open>The answer of the completion endpoint: the content of each choice, when it has one.\<close>

record chat_api_response =
  choices :: "string option list"

text \<open>
  The messages \<open>generateChatCompletion\<close> builds: \<open>if (context)\<close> is truthiness, so an
  absent context and the empty string both send the raw query.
\<close>

definition chat_messages :: "string \<Rightarrow> string \<Rightarrow> string option \<Rightarrow> chat_message list" where
  "chat_messages systemPrompt userQuery context =
     [\<lparr>msg_role = System, msg_content = systemPrompt\<rparr>] @
     (if truthy_str context
      then [\<lparr>msg_role = User,
             msg_content = ''Context information:'' @ [CHR 0x0A] @ str_of context @ [CHR 0x0A, CHR 0x0A]
                           @ ''Question: '' @ userQuery\<rparr>]
      else [\<lparr>msg_role = User, msg_content = userQuery\<rparr>])"

definition first_content :: "chat_api_response \<Rightarrow> string option" where
  "first_content response = (case choices response of [] \<Rightarrow> None | c # rest \<Rightarrow> c)"

definition generateChatCompletion ::
  "(chat_request \<Rightarrow> 's \<Rightarrow> (thrown + chat_api_response) \<times> 's) \<Rightarrow> string \<Rightarrow> string \<Rightarrow> string option \<Rightarrow> 's
     \<Rightarrow> (thrown + string) \<times> 's \<times> nat" where
  "generateChatCompletion create systemPrompt userQuery context s =
     (let messages = chat_messages systemPrompt userQuery context in
      case withRetries
             (create \<lparr>req_messages = messages, req_max_tokens = 1000, req_temperature = 0.7\<rparr>)
             None s of
        (Inr response, s', n) \<Rightarrow>
          (let content = first_content response in
           if \<not> truthy_str content
           then (Inl (rethrow (new_Error ''No response generated'') ''Failed to generate response''), s', n)
           else (Inr (trim (str_of content)), s', n))
      | (Inl error, s', n) \<Rightarrow> (Inl (rethrow error ''Failed to generate response''), s', n))"

section \<open>services/pinecone.ts: the remote-index variant\<close>

text \<open>
  A chunk handed to a store. \<open>item_text\<close> is \<open>None\<close> when the upload route read
  \<open>textChunks[index]\<close> beyond the end of the array (\<open>undefined\<close>).
\<close>

record store_item =
  item_id :: string
  item_embedding :: "real list"
  item_text :: "string option"
  item_documentId :: string

record pinecone_vector =
  vec_id :: string
  vec_values :: "real list"
  vec_metadata :: "(string \<times> string) list"

record pinecone_index =
  idx_reachable :: bool
  idx_records :: "pinecone_vector list"

record query_request =
  q_vector :: "real list"
  q_topK :: nat
  q_filter :: "(string \<times> string) option"

record query_match =
  match_id :: string
  match_score :: real
  match_metadata :: "(string \<times> string) list"

record VectorSearchResult =
  res_id :: string
  res_text :: string
  res_score :: real
  res_metadata :: "(string \<times> string) list"

record environment =
  PINECONE_API_KEY :: "string option"

text \<open>
  Modelled from the spec: the remote vector index is an external service, of which the
  repository holds only the calls. Section 6 of the spec gives its interface: upsert by id
  with metadata, and query by vector with an optional metadata-equality filter
  (\<open>{field: {$eq: value}}\<close>), answering the \<open>topK\<close> records of highest score, in
  descending order. A record without the filtered field does not match. The score is the
  index's own metric, a parameter here. A call to an unreachable index fails.
\<close>

definition index_upsert :: "pinecone_index \<Rightarrow> pinecone_vector list \<Rightarrow> unit option \<times> pinecone_index" where
  "index_upsert index vectors =
     (if idx_reachable index
      then (Some (),
            index\<lparr>idx_records :=
              filter (\<lambda>r. vec_id r \<notin> set (map vec_id vectors)) (idx_records index) @ vectors\<rparr>)
      else (None, index))"

definition passes_filter :: "(string \<times> string) option \<Rightarrow> pinecone_vector \<Rightarrow> bool" where
  "passes_filter flt r =
     (case flt of None \<Rightarrow> True | Some (field, v) \<Rightarrow> map_of (vec_metadata r) field = Some v)"

definition index_query ::
  "(real list \<Rightarrow> real list \<Rightarrow> real) \<Rightarrow> pinecone_index \<Rightarrow> query_request \<Rightarrow> query_match list option" where
  "index_query metric index request =
     (if idx_reachable index
      then Some (take (q_topK request)
             (sort_key (\<lambda>m. - match_score m)
                (map (\<lambda>r. \<lparr>match_id = vec_id r, match_score = metric (q_vector request) (vec_values r),
                            match_metadata = vec_metadata r\<rparr>)
                     (filter (passes_filter (q_filter request)) (idx_records index)))))
      else None)"

text \<open>
  \<open>storeEmbeddings\<close>. \<open>initializePinecone\<close> throws without an API key; every failure
  is caught and thrown again as \<open>Failed to store embeddings\<close>. The metadata written is
  \<open>{text, documentId}\<close>; an undefined text is no entry.
\<close>

definition vector_of_item :: "store_item \<Rightarrow> pinecone_vector" where
  "vector_of_item item =
     \<lparr>vec_id = item_id item, vec_values = item_embedding item,
      vec_metadata = (case item_text item of None \<Rightarrow> [] | Some t \<Rightarrow> [(''text'', t)])
                     @ [(''documentId'', item_documentId item)]\<rparr>"

definition storeEmbeddings ::
  "environment \<Rightarrow> pinecone_index \<Rightarrow> store_item list \<Rightarrow> (thrown + unit) \<times> pinecone_index" where
  "storeEmbeddings env index embeddings =
     (if \<not> truthy_str (PINECONE_API_KEY env) then (Inl (new_Error ''Failed to store embeddings''), index)
      else
        let vectors = map vector_of_item embeddings in
        case index_upsert index vectors of
          (Some u, index') \<Rightarrow> (Inr (), index')
        | (None, index') \<Rightarrow> (Inl (new_Error ''Failed to store embeddings''), index'))"

text \<open>
  \<open>searchSimilarEmbeddings\<close>: the filter \<open>{userId: {$eq: userId}}\<close> is added
  \<open>if (userId)\<close>, that is for a user id that is given and not empty. The text of a result
  is \<open>match.metadata?.text || ''\<close>; its score is \<open>match.score || 0\<close>, which is the score
  of the match, every match of the index having one.
\<close>

definition result_of_match :: "query_match \<Rightarrow> VectorSearchResult" where
  "result_of_match m =
     \<lparr>res_id = match_id m,
      res_text = str_of (or_str (map_of (match_metadata m) ''text'') (Some [])),
      res_score = match_score m,
      res_metadata = match_metadata m\<rparr>"

definition searchSimilarEmbeddings ::
  "environment \<Rightarrow> (real list \<Rightarrow> real list \<Rightarrow> real) \<Rightarrow> pinecone_index \<Rightarrow> real list \<Rightarrow> nat
     \<Rightarrow> string option \<Rightarrow> thrown + VectorSearchResult list" where
  "searchSimilarEmbeddings env metric index queryEmbedding topK userId =
     (if \<not> truthy_str (PINECONE_API_KEY env) then Inl (new_Error ''Failed to search embeddings'')
      else
        let searchRequest =
              \<lparr>q_vector = queryEmbedding, q_topK = topK,
               q_filter = (if truthy_str userId then Some (''userId'', str_of userId) else None)\<rparr>
        in case index_query metric index searchRequest of
             Some matches \<Rightarrow> Inr (map result_of_match matches)
           | None \<Rightarrow> Inl (new_Error ''Failed to search embeddings''))"

section \<open>services/database.ts: the relational variant\<close>

text \<open>
  The tables of the migration: \<open>documents\<close> (primary key \<open>id\<close>, owner \<open>userId\<close>),
  \<open>chunks\<close> (primary key \<open>id\<close>, foreign key \<open>documentId\<close>, \<open>embedding\<close> an array of
  doubles) and \<open>chats\<close>. A null embedding unnests to no row, like the empty array, so the
  column is a list.
\<close>

record document_row =
  doc_id :: string
  doc_name :: string
  doc_userId :: string

record chunk_row =
  chunk_id :: string
  chunk_documentId :: string
  chunk_text :: string
  chunk_embedding :: "real list"

record chat_row =
  chat_id :: string
  chat_userId :: string
  chat_query :: string
  chat_answer :: string

record database =
  db_reachable :: bool
  db_documents :: "document_row list"
  db_chunks :: "chunk_row list"
  db_chats :: "chat_row list"

text \<open>
  \<open>storeEmbeddingsInDB\<close>: \<open>createMany\<close> inserts all rows or none. It fails when the
  database is unreachable, when a required column is undefined, on a primary key already
  present or repeated, and on a document id that is not in \<open>documents\<close>.
\<close>

definition storeEmbeddingsInDB :: "database \<Rightarrow> store_item list \<Rightarrow> (thrown + unit) \<times> database" where
  "storeEmbeddingsInDB db embeddings =
     (if db_reachable db
         \<and> list_all (\<lambda>item. item_text item \<noteq> None) embeddings
         \<and> distinct (map item_id embeddings)
         \<and> list_all (\<lambda>item. item_id item \<notin> set (map chunk_id (db_chunks db))) embeddings
         \<and> list_all (\<lambda>item. item_documentId item \<in> set (map doc_id (db_documents db))) embeddings
      then (Inr (),
            db\<lparr>db_chunks := db_chunks db @
              map (\<lambda>item. \<lparr>chunk_id = item_id item, chunk_documentId = item_documentId item,
                            chunk_text = str_of (item_text item),
                            chunk_embedding = item_embedding item\<rparr>) embeddings\<rparr>)
      else (Inl (new_Error ''Failed to store embeddings in database''), db))"

text \<open>
  The similarity of the raw query, on SQL values: \<open>None\<close> is NULL. \<open>SUM\<close> over no row
  is NULL, an operator with a NULL argument gives NULL, and a division of a number by
  zero is an error of the query.
\<close>

definition sql_sum :: "real list \<Rightarrow> real option" where
  "sql_sum xs = (if xs = [] then None else Some (sum_list xs))"

definition sql_sqrt :: "real option \<Rightarrow> real option" where
  "sql_sqrt x = map_option sqrt x"

definition sql_times :: "real option \<Rightarrow> real option \<Rightarrow> real option" where
  "sql_times x y = (case (x, y) of (Some a, Some b) \<Rightarrow> Some (a * b) | _ \<Rightarrow> None)"

text \<open>The outer \<open>None\<close> is the error \<open>division by zero\<close>.\<close>

definition sql_divide :: "real option \<Rightarrow> real option \<Rightarrow> real option option" where
  "sql_divide x y =
     (case (x, y) of
        (Some a, Some b) \<Rightarrow> if b = 0 then None else Some (Some (a / b))
      | _ \<Rightarrow> Some None)"

definition similarity :: "real list \<Rightarrow> real list \<Rightarrow> real option option" where
  "similarity a b =
     sql_divide (sql_sum (map (\<lambda>(x, y). x * y) (zip a b)))
       (sql_times (sql_sqrt (sql_sum (map (\<lambda>v. v ^ 2) a)))
                  (sql_sqrt (sql_sum (map (\<lambda>v. v ^ 2) b))))"

text \<open>
  The rows of \<open>chunks c JOIN documents d ON c."documentId" = d.id\<close>, with
  \<open>WHERE d."userId" = $2\<close> when \<open>userId\<close> is given and not empty.
\<close>

definition joined_rows :: "database \<Rightarrow> string option \<Rightarrow> (chunk_row \<times> document_row) list" where
  "joined_rows db userId =
     concat (map (\<lambda>c. map (\<lambda>d. (c, d))
                  (filter (\<lambda>d. chunk_documentId c = doc_id d
                               \<and> (if truthy_str userId then doc_userId d = str_of userId else True))
                          (db_documents db)))
                 (db_chunks db))"

text \<open>
  \<open>ORDER BY similarity DESC\<close> puts the NULLs first; the order of ties is the database's
  choice, here the order of the rows. \<open>LIMIT\<close> keeps \<open>topK\<close> rows.
\<close>

definition order_by_similarity_desc ::
  "(chunk_row \<times> document_row \<times> real option) list \<Rightarrow> (chunk_row \<times> document_row \<times> real option) list" where
  "order_by_similarity_desc rows =
     filter (\<lambda>(c, d, sim). sim = None) rows
     @ sort_key (\<lambda>(c, d, sim). - (case sim of Some x \<Rightarrow> x | None \<Rightarrow> 0))
         (filter (\<lambda>(c, d, sim). sim \<noteq> None) rows)"

definition result_of_row :: "chunk_row \<times> document_row \<times> real option \<Rightarrow> VectorSearchResult" where
  "result_of_row row =
     (case row of (c, d, sim) \<Rightarrow>
        \<lparr>res_id = chunk_id c, res_text = chunk_text c,
         res_score = (case sim of Some x \<Rightarrow> x | None \<Rightarrow> 0),
         res_metadata = [(''documentId'', chunk_documentId c), (''documentName'', doc_name d)]\<rparr>)"

text \<open>
  What is above is the reading of the statement's text. The statement itself does not
  run. Its numerator aliases its arrays (\<open>unnest(...) WITH ORDINALITY AS a(value, idx)\<close>),
  but the two sub-selects of the denominator are
  \<open>SELECT SUM(power(value, 2)) FROM unnest($1::float[])\<close> and
  \<open>SELECT SUM(power(value, 2)) FROM unnest(c.embedding)\<close>, without an alias: the one
  column of such a \<open>FROM\<close> item is named \<open>unnest\<close>, and the tables of the enclosing
  query, \<open>chunks c\<close> and \<open>documents d\<close>, have no column \<open>value\<close> either. PostgreSQL
  resolves the names when it analyses the statement, before it reads a row, and rejects
  it (column "value" does not exist); \<open>$queryRawUnsafe\<close> throws, and the \<open>catch\<close> of
  \<open>searchSimilarEmbeddingsInDB\<close> throws \<open>Failed to search embeddings in database\<close>.
\<close>

definition magnitude_scope :: "string list" where
  "magnitude_scope =
     [''unnest'']
     @ [''id'', ''documentId'', ''text'', ''embedding'']
     @ [''id'', ''name'', ''userId'', ''createdAt'', ''updatedAt'']"

definition statement_accepted :: bool where
  "statement_accepted \<longleftrightarrow> ''value'' \<in> set magnitude_scope"

definition searchSimilarEmbeddingsInDB ::
  "database \<Rightarrow> real list \<Rightarrow> nat \<Rightarrow> string option \<Rightarrow> thrown + VectorSearchResult list" where
  "searchSimilarEmbeddingsInDB db queryEmbedding topK userId =
     (if \<not> db_reachable db then Inl (new_Error ''Failed to search embeddings in database'')
      else if \<not> statement_accepted then Inl (new_Error ''Failed to search embeddings in database'')
      else
        let rows = joined_rows db userId;
            sims = map (\<lambda>(c, d). similarity queryEmbedding (chunk_embedding c)) rows
        in if None \<in> set sims then Inl (new_Error ''Failed to search embeddings in database'')
           else
             let scored = map (\<lambda>(c, d). (c, d, (case similarity queryEmbedding (chunk_embedding c) of
                                                    Some sim \<Rightarrow> sim | None \<Rightarrow> None))) rows
             in Inr (map result_of_row (take topK (order_by_similarity_desc scored))))"

definition createChatRecord ::
  "database \<Rightarrow> string \<Rightarrow> string \<Rightarrow> string \<Rightarrow> string \<Rightarrow> (thrown + chat_row) \<times> database" where
  "createChatRecord db new_id userId query answer =
     (if db_reachable db \<and> new_id \<notin> set (map chat_id (db_chats db))
      then (let chat = \<lparr>chat_id = new_id, chat_userId = userId, chat_query = query, chat_answer = answer\<rparr>
            in (Inr chat, db\<lparr>db_chats := db_chats db @ [chat]\<rparr>))
      else (Inl (new_Error ''Failed to create chat record''), db))"

section \<open>The upload route: embedding and storage steps\<close>

record http_reply =
  reply_status :: int
  reply_message :: string

text \<open>
  Step 5 of \<open>POST /api/upload\<close>: one store item per embedding response, with the text
  of the chunk at the same index. \<open>uuids index\<close> is the identifier \<open>crypto.randomUUID()\<close>
  gave to the item at \<open>index\<close>.
\<close>

definition upload_embed_step ::
  "(embed_input \<Rightarrow> 's \<Rightarrow> (thrown + embeddings_api_response) \<times> 's) \<Rightarrow> (nat \<Rightarrow> string) \<Rightarrow> string list
     \<Rightarrow> string \<Rightarrow> 's \<Rightarrow> (http_reply + store_item list) \<times> 's \<times> nat" where
  "upload_embed_step create uuids textChunks documentId s =
     (case generateEmbeddings create textChunks s of
        (Inr embeddingResponses, s', n) \<Rightarrow>
          (Inr (map (\<lambda>(index, response).
                   \<lparr>item_id = uuids index,
                    item_embedding = embedding response,
                    item_text = (if index < length textChunks then Some (textChunks ! index) else None),
                    item_documentId = documentId\<rparr>)
                 (enumerate 0 embeddingResponses)),
           s', n)
      | (Inl error, s', n) \<Rightarrow>
          (let status = (if err_status error = Some 429 \<or> err_code error = Some ''insufficient_quota''
                         then 429 else 500)
           in (Inl \<lparr>reply_status = status,
                    reply_message = (if status = 429
                                     then ''OpenAI quota exceeded. Please check billing or try later.''
                                     else ''Failed to generate embeddings'')\<rparr>,
               s', n)))"

text \<open>
  Step 6: the remote index first when \<open>PINECONE_API_KEY\<close> is set, and on any failure of
  that attempt the database. The result is the \<open>storageMethod\<close> reported to the caller.
\<close>

definition upload_store_step ::
  "environment \<Rightarrow> pinecone_index \<Rightarrow> database \<Rightarrow> store_item list
     \<Rightarrow> (http_reply + string) \<times> pinecone_index \<times> database" where
  "upload_store_step env index db embeddings =
     (case (if truthy_str (PINECONE_API_KEY env) then storeEmbeddings env index embeddings
            else (Inl (new_Error ''Pinecone not configured, using database''), index)) of
        (Inr u, index') \<Rightarrow> (Inr ''pinecone'', index', db)
      | (Inl pineconeError, index') \<Rightarrow>
          (case storeEmbeddingsInDB db embeddings of
             (Inr u, db') \<Rightarrow> (Inr ''database'', index', db')
           | (Inl dbError, db') \<Rightarrow>
               (Inl \<lparr>reply_status = 500, reply_message = ''Failed to store embeddings''\<rparr>, index', db')))"

section \<open>The chat route\<close>

text \<open>Step 2 of \<open>POST /api/chat\<close>: the variant searched is chosen by the API key alone.\<close>

definition chat_search_step ::
  "environment \<Rightarrow> (real list \<Rightarrow> real list \<Rightarrow> real) \<Rightarrow> pinecone_index \<Rightarrow> database \<Rightarrow> real list
     \<Rightarrow> string \<Rightarrow> thrown + VectorSearchResult list" where
  "chat_search_step env metric index db queryEmbedding userId =
     (if truthy_str (PINECONE_API_KEY env)
      then searchSimilarEmbeddings env metric index queryEmbedding 5 (Some userId)
      else searchSimilarEmbeddingsInDB db queryEmbedding 5 (Some userId))"

text \<open>
  Step 3. The threshold is the literal \<open>0.7\<close>. No double lies strictly between the double
  nearest to 7/10 and 7/10 itself, so on doubles \<open>score > 0.7\<close> is the comparison of the
  reals.
\<close>

definition relevant_results :: "VectorSearchResult list \<Rightarrow> VectorSearchResult list" where
  "relevant_results searchResults = take 5 (filter (\<lambda>result. res_score result > 0.7) searchResults)"

definition contextChunks_of :: "VectorSearchResult list \<Rightarrow> string list" where
  "contextChunks_of searchResults = map res_text (relevant_results searchResults)"

definition context_of :: "VectorSearchResult list \<Rightarrow> string" where
  "context_of searchResults = join [CHR 0x0A, CHR 0x0A] (contextChunks_of searchResults)"

text \<open>
  \<open>Number.prototype.toFixed(3)\<close> on a number below \<open>10 ^ 21\<close> in size: the sign, then
  the nearest multiple of a thousandth (of two equally near, the larger in size), with
  three decimals.
\<close>

definition digit_char :: "nat \<Rightarrow> char" where
  "digit_char d = ''0123456789'' ! (d mod 10)"

function decimal_digits :: "nat \<Rightarrow> string" where
  "decimal_digits n =
     (if n < 10 then [digit_char n] else decimal_digits (n div 10) @ [digit_char (n mod 10)])"
  by pat_completeness auto
termination
  by (relation "measure (\<lambda>n. n)") auto

definition toFixed3 :: "real \<Rightarrow> string" where
  "toFixed3 x =
     (let n = nat \<lfloor>\<bar>x\<bar> * 1000 + 1 / 2\<rfloor> in
      (if x < 0 then ''-'' else []) @ decimal_digits (n div 1000) @ ''.''
      @ [digit_char (n div 100), digit_char (n div 10), digit_char n])"

definition references_of :: "VectorSearchResult list \<Rightarrow> string list" where
  "references_of searchResults =
     map (\<lambda>result. take 100 (res_text result) @ ''... (Score: '' @ toFixed3 (res_score result) @ '')'')
         (relevant_results searchResults)"

definition systemPrompt_of :: "string \<Rightarrow> string" where
  "systemPrompt_of context =
     ''You are a helpful study assistant. Your task is to answer questions based ONLY on the provided context information.''
     @ [CHR 0x0A, CHR 0x0A] @ ''Instructions:''
     @ [CHR 0x0A] @ ''- Use only the information provided in the context to answer questions''
     @ [CHR 0x0A] @ ''- If the context doesn't contain enough information to answer the question, say ''
     @ [CHR 0x22] @ ''I don't have enough information in the provided documents to answer this question.''
     @ [CHR 0x22]
     @ [CHR 0x0A] @ ''- Be accurate and concise in your responses''
     @ [CHR 0x0A] @ ''- If you quote directly from the context, use quotation marks''
     @ [CHR 0x0A] @ ''- Provide helpful explanations when possible''
     @ [CHR 0x0A, CHR 0x0A] @ ''Context Information:''
     @ [CHR 0x0A] @ context
     @ [CHR 0x0A, CHR 0x0A]
     @ ''Remember: Only use the context provided above to answer questions. Do not use any external knowledge.''"

record ChatResponse =
  answer :: string
  references :: "string list"
  chatId :: string

text \<open>
  The handler. \<open>user\<close> is \<open>req.user?.id\<close>. The result carries the reply, the database and
  the provider's state after the request, and the number of calls made to the completion
  endpoint. A failure to save the chat record does not fail the request.
\<close>

definition chat_post ::
  "environment \<Rightarrow> (real list \<Rightarrow> real list \<Rightarrow> real)
     \<Rightarrow> (embed_input \<Rightarrow> 's \<Rightarrow> (thrown + embeddings_api_response) \<times> 's)
     \<Rightarrow> (chat_request \<Rightarrow> 's \<Rightarrow> (thrown + chat_api_response) \<times> 's)
     \<Rightarrow> string \<Rightarrow> pinecone_index \<Rightarrow> database \<Rightarrow> string option \<Rightarrow> string \<Rightarrow> 's
     \<Rightarrow> (http_reply + ChatResponse) \<times> database \<times> 's \<times> nat" where
  "chat_post env metric embed_create chat_create new_id index db user query s =
     (case user of
        None \<Rightarrow> (Inl \<lparr>reply_status = 401, reply_message = ''User not authenticated''\<rparr>, db, s, 0)
      | Some userId \<Rightarrow>
          if query = [] \<or> length (trim query) = 0
          then (Inl \<lparr>reply_status = 400, reply_message = ''Query is required''\<rparr>, db, s, 0)
          else if length query > 1000
          then (Inl \<lparr>reply_status = 400, reply_message = ''Query is too long. Maximum 1000 characters.''\<rparr>,
                db, s, 0)
          else
            (case generateEmbedding embed_create query s of
               (Inl error, s1, n1) \<Rightarrow>
                 (Inl \<lparr>reply_status = 500, reply_message = ''Failed to process query''\<rparr>, db, s1, 0)
             | (Inr embeddingResponse, s1, n1) \<Rightarrow>
                 (case chat_search_step env metric index db (embedding embeddingResponse) userId of
                    Inl error \<Rightarrow>
                      (Inl \<lparr>reply_status = 500, reply_message = ''Failed to search knowledge base''\<rparr>,
                       db, s1, 0)
                  | Inr searchResults \<Rightarrow>
                      (let context = context_of searchResults;
                           refs = references_of searchResults;
                           systemPrompt = systemPrompt_of context
                       in case generateChatCompletion chat_create systemPrompt query (Some context) s1 of
                            (Inl error, s2, n2) \<Rightarrow>
                              (Inl \<lparr>reply_status = 500, reply_message = ''Failed to generate response''\<rparr>,
                               db, s2, n2)
                          | (Inr answer_text, s2, n2) \<Rightarrow>
                              (case createChatRecord db new_id userId query answer_text of
                                 (chatRecord, db') \<Rightarrow>
                                   (Inr \<lparr>answer = answer_text, references = refs,
                                         chatId = str_of (or_str (case chatRecord of
                                                                    Inr chat \<Rightarrow> Some (chat_id chat)
                                                                  | Inl e \<Rightarrow> None)
                                                                 (Some ''unknown''))\<rparr>,
                                    db', s2, n2))))))"

section \<open>The quiz route\<close>

text \<open>
  What \<open>JSON.parse\<close> returns. An object is the list of its members; \<open>undefined\<close>, the
  value of a missing property, is \<open>None\<close>.
\<close>

datatype json = JNull | JBool bool | JNum real | JStr string | JArr "json list"
  | JObj "(string \<times> json) list"

text \<open>
  \<open>q.name\<close> for the names the route reads (none of them a property of an array, a
  string, a number or a boolean). On \<open>null\<close> the access throws; the caller handles that
  case before.
\<close>

definition get_property :: "json \<Rightarrow> string \<Rightarrow> json option" where
  "get_property q name = (case q of JObj members \<Rightarrow> map_of members name | _ \<Rightarrow> None)"

definition truthy_json :: "json option \<Rightarrow> bool" where
  "truthy_json v =
     (case v of
        None \<Rightarrow> False
      | Some JNull \<Rightarrow> False
      | Some (JBool b) \<Rightarrow> b
      | Some (JNum n) \<Rightarrow> n \<noteq> 0
      | Some (JStr t) \<Rightarrow> t \<noteq> []
      | Some (JArr xs) \<Rightarrow> True
      | Some (JObj members) \<Rightarrow> True)"

text \<open>
  The callback of the filter:
  \<open>q.question && q.options && Array.isArray(q.options) && q.options.length === 4 &&
  typeof q.correctAnswer === 'number'\<close>.
\<close>

definition question_filter :: "json \<Rightarrow> bool" where
  "question_filter q \<longleftrightarrow>
     truthy_json (get_property q ''question'')
     \<and> truthy_json (get_property q ''options'')
     \<and> (case get_property q ''options'' of Some (JArr opts) \<Rightarrow> length opts = 4 | _ \<Rightarrow> False)
     \<and> (case get_property q ''correctAnswer'' of Some (JNum n) \<Rightarrow> True | _ \<Rightarrow> False)"

record QuizResponse =
  questions :: "json list"
  documentName :: string

text \<open>
  \<open>POST /api/quiz\<close>. \<open>document\<close> is the document found for this id and this user,
  \<open>documentChunks\<close> the outcome of \<open>getChunksByDocumentId\<close>, and \<open>generate\<close> the call
  \<open>generateQuizQuestions(context, numQuestions)\<close>, whose value is whatever JSON the model
  wrote. \<open>slice(0, numQuestions)\<close> truncates its bound to an integer. A \<open>null\<close> among the
  questions makes the filter throw, which the handler's outer \<open>catch\<close> answers.
\<close>

definition quiz_post ::
  "string option \<Rightarrow> string \<Rightarrow> real \<Rightarrow> document_row option \<Rightarrow> thrown + chunk_row list
     \<Rightarrow> (string \<Rightarrow> real \<Rightarrow> thrown + json) \<Rightarrow> http_reply + QuizResponse" where
  "quiz_post user documentId numQuestions document documentChunks generate =
     (case user of
        None \<Rightarrow> Inl \<lparr>reply_status = 401, reply_message = ''User not authenticated''\<rparr>
      | Some userId \<Rightarrow>
          if documentId = [] then Inl \<lparr>reply_status = 400, reply_message = ''Document ID is required''\<rparr>
          else if numQuestions = 0 \<or> numQuestions < 1 \<or> numQuestions > 20
          then Inl \<lparr>reply_status = 400, reply_message = ''Number of questions must be between 1 and 20''\<rparr>
          else
            (case document of
               None \<Rightarrow> Inl \<lparr>reply_status = 404, reply_message = ''Document not found or access denied''\<rparr>
             | Some doc \<Rightarrow>
                 (case documentChunks of
                    Inl error \<Rightarrow> Inl \<lparr>reply_status = 500, reply_message = ''Failed to fetch document content''\<rparr>
                  | Inr found \<Rightarrow>
                      if length found = 0
                      then Inl \<lparr>reply_status = 400,
                                reply_message = ''No content available for this document to generate quiz questions''\<rparr>
                      else
                        let maxChunks = min 10 (length found);
                            context = join [CHR 0x0A, CHR 0x0A] (map chunk_text (take maxChunks found))
                        in if length context = 0
                           then Inl \<lparr>reply_status = 400,
                                     reply_message = ''Document content is too short to generate quiz questions''\<rparr>
                           else
                             (case generate context numQuestions of
                                Inl error \<Rightarrow>
                                  Inl \<lparr>reply_status = 500, reply_message = ''Failed to generate quiz questions''\<rparr>
                              | Inr JNull \<Rightarrow>
                                  Inl \<lparr>reply_status = 500, reply_message = ''Failed to generate quiz questions''\<rparr>
                              | Inr (JArr quizQuestions) \<Rightarrow>
                                  if length quizQuestions = 0
                                  then Inl \<lparr>reply_status = 500,
                                            reply_message = ''Failed to generate valid quiz questions''\<rparr>
                                  else if JNull \<in> set quizQuestions
                                  then Inl \<lparr>reply_status = 500,
                                            reply_message = ''Internal server error during quiz generation''\<rparr>
                                  else
                                    let validatedQuestions =
                                          take (nat \<lfloor>numQuestions\<rfloor>) (filter question_filter quizQuestions)
                                    in if length validatedQuestions = 0
                                       then Inl \<lparr>reply_status = 500,
                                                 reply_message = ''Generated quiz questions are not in the correct format''\<rparr>
                                       else Inr \<lparr>questions = validatedQuestions, documentName = doc_name doc\<rparr>
                              | Inr other \<Rightarrow>
                                  Inl \<lparr>reply_status = 500,
                                       reply_message = ''Failed to generate valid quiz questions''\<rparr>))))"

section \<open>Fixtures\<close>

text \<open>
  Stand-ins for the collaborators, for the examples below. A scripted provider answers
  each call, whatever the request, with the next outcome of its script, which is its
  state. The index metric of the examples is the dot product. A scripted model writes
  the given JSON whatever it is asked. The identifiers of the examples are numbered.
\<close>

fun scripted :: "'r \<Rightarrow> (thrown + 'a) list \<Rightarrow> (thrown + 'a) \<times> (thrown + 'a) list" where
  "scripted request [] = (Inl (new_Error ''script exhausted''), [])"
| "scripted request (outcome # script) = (outcome, script)"

text \<open>
  Two providers side by side, each on its own half of the state: the embedding endpoint
  on the first, the completion endpoint on the second.
\<close>

definition on_fst :: "('r \<Rightarrow> 'a \<Rightarrow> 'x \<times> 'a) \<Rightarrow> 'r \<Rightarrow> 'a \<times> 'b \<Rightarrow> 'x \<times> 'a \<times> 'b" where
  "on_fst f request s = (case f request (fst s) of (x, a) \<Rightarrow> (x, a, snd s))"

definition on_snd :: "('r \<Rightarrow> 'b \<Rightarrow> 'x \<times> 'b) \<Rightarrow> 'r \<Rightarrow> 'a \<times> 'b \<Rightarrow> 'x \<times> 'a \<times> 'b" where
  "on_snd f request s = (case f request (snd s) of (x, b) \<Rightarrow> (x, fst s, b))"

definition dot_product :: "real list \<Rightarrow> real list \<Rightarrow> real" where
  "dot_product a b = sum_list (map (\<lambda>(x, y). x * y) (zip a b))"

definition scripted_quiz :: "json \<Rightarrow> string \<Rightarrow> real \<Rightarrow> thrown + json" where
  "scripted_quiz written context numQuestions = Inr written"

definition numbered_id :: "nat \<Rightarrow> string" where
  "numbered_id index = ''chunk-'' @ decimal_digits index"

definition billing_stop :: thrown where
  "billing_stop = (new_Error ''Billing hard limit reached'')\<lparr>err_code := Some ''insufficient_quota''\<rparr>"

definition rate_limited :: thrown where
  "rate_limited = (new_Error ''Rate limit reached'')\<lparr>err_status := Some 429\<rparr>"

text \<open>
  The environment with the API key set, and the stores of the examples: two users,
  \<open>u1\<close> and \<open>u2\<close>, with one document and one chunk each. \<open>example_index\<close> is an index
  whose records carry owner tags, as another writer than \<open>storeEmbeddings\<close> can leave
  them: one record tagged for each user and one without a tag.
\<close>

definition remote_env :: environment where
  "remote_env = \<lparr>PINECONE_API_KEY = Some ''pc-key''\<rparr>"

definition example_db :: database where
  "example_db =
     \<lparr>db_reachable = True,
      db_documents = [\<lparr>doc_id = ''d1'', doc_name = ''cats.txt'', doc_userId = ''u1''\<rparr>,
                      \<lparr>doc_id = ''d2'', doc_name = ''dogs.txt'', doc_userId = ''u2''\<rparr>],
      db_chunks = [\<lparr>chunk_id = ''c1'', chunk_documentId = ''d1'', chunk_text = ''Cats purr'',
                     chunk_embedding = [0, 1]\<rparr>,
                   \<lparr>chunk_id = ''c2'', chunk_documentId = ''d2'', chunk_text = ''Dogs bark'',
                     chunk_embedding = [1, 0]\<rparr>],
      db_chats = []\<rparr>"

definition example_index :: pinecone_index where
  "example_index =
     \<lparr>idx_reachable = True,
      idx_records =
        [\<lparr>vec_id = ''c1'', vec_values = [0, 1],
          vec_metadata = [(''text'', ''Cats purr''), (''documentId'', ''d1''), (''userId'', ''u1'')]\<rparr>,
         \<lparr>vec_id = ''c2'', vec_values = [1, 0],
          vec_metadata = [(''text'', ''Dogs bark''), (''documentId'', ''d2''), (''userId'', ''u2'')]\<rparr>,
         \<lparr>vec_id = ''c3'', vec_values = [1, 0],
          vec_metadata = [(''text'', ''Birds sing''), (''documentId'', ''d1'')]\<rparr>]\<rparr>"

definition empty_index :: pinecone_index where
  "empty_index = \<lparr>idx_reachable = True, idx_records = []\<rparr>"

definition unreachable_index :: pinecone_index where
  "unreachable_index = \<lparr>idx_reachable = False, idx_records = []\<rparr>"

definition bird_item :: store_item where
  "bird_item = \<lparr>item_id = ''c3'', item_embedding = [1, 0], item_text = Some ''Birds sing'',
                 item_documentId = ''d1''\<rparr>"

definition dog_item :: store_item where
  "dog_item = \<lparr>item_id = ''c2'', item_embedding = [1, 0], item_text = Some ''Dogs bark'',
                 item_documentId = ''d2''\<rparr>"

text \<open>The index after \<open>storeEmbeddings\<close> has stored \<open>dog_item\<close>, a chunk of the user \<open>u2\<close>.\<close>

definition written_index :: pinecone_index where
  "written_index = snd (storeEmbeddings remote_env empty_index [dog_item])"

definition out_of_range_question :: json where
  "out_of_range_question =
     JObj [(''question'', JStr ''Which one?''),
           (''options'', JArr [JStr ''a'', JStr ''b'', JStr ''c'', JStr ''d'']),
           (''correctAnswer'', JNum 7)]"

text \<open>
  The owner tag of an index record is the metadata field that the search filter and
  \<open>deleteEmbeddingsByUserId\<close> read.
\<close>

definition record_owner :: "pinecone_vector \<Rightarrow> string option" where
  "record_owner r = map_of (vec_metadata r) ''userId''"

text \<open>
  The bound the chunker keeps: a chunk is at most two characters (the separator put
  before its last sentence) over four times the limit, or it is one of the trimmed
  sentences of the text, itself over the limit.
\<close>

definition chunk_ok :: "real \<Rightarrow> string list \<Rightarrow> string \<Rightarrow> bool" where
  "chunk_ok m S c \<longleftrightarrow> real (length c) / 4 \<le> m + 1 / 2
      \<or> (c \<in> trim ` set S \<and> real (length c) / 4 > m)"

section \<open>Properties of the chunker\<close>

lemma trim_length_le: "length (trim s) \<le> length s"
proof -
  have "length (trim s) \<le> length (dropWhile is_space s)"
    unfolding trim_def by (simp add: length_dropWhile_le order_trans [OF length_dropWhile_le])
  also have "\<dots> \<le> length s" by (rule length_dropWhile_le)
  finally show ?thesis .
qed

lemma trim_idem: "trim (trim s) = trim s"
proof (cases "trim s = []")
  case True
  have "trim [] = []" by (simp add: trim_def)
  with True show ?thesis by simp
next
  case False
  let ?d = "dropWhile is_space s"
  let ?e = "dropWhile is_space (rev ?d)"
  have e_ne: "?e \<noteq> []" using False by (simp add: trim_def)
  have d_ne: "?d \<noteq> []"
  proof
    assume "?d = []"
    then have "?e = dropWhile is_space (rev [])" by (rule arg_cong)
    with e_ne show False by simp
  qed
  have last_ok: "\<not> is_space (hd ?e)" using e_ne by (rule hd_dropWhile)
  have "\<not> is_space (hd ?d)" using d_ne by (rule hd_dropWhile)
  moreover have "hd (rev ?e) = hd ?d"
  proof -
    obtain ys where ys: "rev ?d = ys @ ?e"
      by (metis takeWhile_dropWhile_id)
    then have "?d = rev ?e @ rev ys" by (metis rev_append rev_rev_ident)
    then show ?thesis using e_ne by (metis hd_append2 rev_is_Nil_conv)
  qed
  ultimately have first_ok: "\<not> is_space (hd (rev ?e))" by simp
  have "dropWhile is_space (rev ?e) = rev ?e"
    using first_ok by (simp add: dropWhile_eq_self_iff)
  moreover have "dropWhile is_space ?e = ?e"
    using last_ok by (simp add: dropWhile_eq_self_iff)
  ultimately show ?thesis by (simp add: trim_def)
qed

lemma chunk_ok_trim: "chunk_ok m S c \<Longrightarrow> chunk_ok m S (trim c)"
proof -
  assume a: "chunk_ok m S c"
  show ?thesis
  proof (cases "real (length c) / 4 \<le> m + 1 / 2")
    case True
    have "real (length (trim c)) \<le> real (length c)" using trim_length_le [of c] by simp
    with True show ?thesis by (simp add: chunk_ok_def)
  next
    case False
    with a have "c \<in> trim ` set S" and "real (length c) / 4 > m" by (auto simp: chunk_ok_def)
    moreover from this have "trim c = c" by (auto simp: trim_idem)
    ultimately show ?thesis by (simp add: chunk_ok_def)
  qed
qed

lemma chunk_loop_skip:
  "trim s = [] \<Longrightarrow> chunk_loop m chunks cur (s # rest) = chunk_loop m chunks cur rest"
  by simp

lemma chunk_loop_flush:
  "trim s \<noteq> [] \<Longrightarrow> real (length (cur @ trim s)) / 4 > m \<Longrightarrow> cur \<noteq> [] \<Longrightarrow>
   chunk_loop m chunks cur (s # rest) = chunk_loop m (chunks @ [trim cur]) (trim s) rest"
  by (simp add: Let_def)

lemma chunk_loop_extend:
  "trim s \<noteq> [] \<Longrightarrow> \<not> (real (length (cur @ trim s)) / 4 > m \<and> cur \<noteq> []) \<Longrightarrow>
   chunk_loop m chunks cur (s # rest) =
     chunk_loop m chunks (cur @ (if cur \<noteq> [] then ''. '' else []) @ trim s) rest"
  by (auto simp: Let_def)

lemma chunk_loop_inv:
  "\<lbrakk>\<forall>c\<in>set chunks. chunk_ok m S c; cur = [] \<or> chunk_ok m S cur; set rest \<subseteq> set S;
    chunk_loop m chunks cur rest = (chunks', cur')\<rbrakk>
   \<Longrightarrow> (\<forall>c\<in>set chunks'. chunk_ok m S c) \<and> (cur' = [] \<or> chunk_ok m S cur')"
proof (induction rest arbitrary: chunks cur)
  case Nil
  then show ?case by simp
next
  case (Cons s rest)
  let ?t = "trim s"
  from Cons.prems have sub: "set rest \<subseteq> set S" and sS: "s \<in> set S" by auto
  show ?case
  proof (cases "?t = []")
    case True
    from chunk_loop_skip [OF True] Cons.prems(4)
    have "chunk_loop m chunks cur rest = (chunks', cur')" by simp
    from Cons.IH [OF Cons.prems(1) Cons.prems(2) sub this] show ?thesis .
  next
    case tne: False
    show ?thesis
    proof (cases "real (length (cur @ ?t)) / 4 > m \<and> cur \<noteq> []")
      case True
      then have "real (length (cur @ ?t)) / 4 > m" and "cur \<noteq> []" by simp_all
      from chunk_loop_flush [OF tne this] Cons.prems(4)
      have run: "chunk_loop m (chunks @ [trim cur]) ?t rest = (chunks', cur')" by simp
      from True Cons.prems(2) have "chunk_ok m S cur" by simp
      then have "chunk_ok m S (trim cur)" by (rule chunk_ok_trim)
      with Cons.prems(1) have c1: "\<forall>c\<in>set (chunks @ [trim cur]). chunk_ok m S c" by simp
      have "chunk_ok m S ?t" using sS by (cases "real (length ?t) / 4 > m") (auto simp: chunk_ok_def)
      then have c2: "?t = [] \<or> chunk_ok m S ?t" by simp
      from Cons.IH [OF c1 c2 sub run] show ?thesis .
    next
      case False
      let ?cur2 = "cur @ (if cur \<noteq> [] then ''. '' else []) @ ?t"
      from chunk_loop_extend [OF tne False] Cons.prems(4)
      have run: "chunk_loop m chunks ?cur2 rest = (chunks', cur')" by simp
      have "chunk_ok m S ?cur2"
      proof (cases "cur = []")
        case True
        then show ?thesis using sS by (cases "real (length ?t) / 4 > m") (auto simp: chunk_ok_def)
      next
        case cne: False
        with False have "real (length cur + length ?t) / 4 \<le> m" by simp
        then show ?thesis using cne by (simp add: chunk_ok_def field_simps)
      qed
      then have c2: "?cur2 = [] \<or> chunk_ok m S ?cur2" by simp
      from Cons.IH [OF Cons.prems(1) c2 sub run] show ?thesis .
    qed
  qed
qed

text \<open>
  Claim C6, as the code has it: every chunk produced by \<open>splitTextIntoChunks\<close> has an
  estimate \<open>length / 4\<close> of at most \<open>maxTokens + 1/2\<close>, except a chunk that is a single
  sentence whose own estimate exceeds the limit. The half token is the separator
  \<open>''. ''\<close> put before the last sentence of the chunk, which the estimate made before
  appending does not count.
\<close>

theorem splitTextIntoChunks_bound:
  assumes "c \<in> set (splitTextIntoChunks text maxTokens)"
  shows "real (length c) / 4 \<le> maxTokens + 1 / 2
         \<or> (c \<in> trim ` set (sentences_of text) \<and> real (length c) / 4 > maxTokens)"
proof -
  obtain chunks cur where run: "chunk_loop maxTokens [] [] (sentences_of text) = (chunks, cur)"
    by (cases "chunk_loop maxTokens [] [] (sentences_of text)")
  have inv: "(\<forall>c\<in>set chunks. chunk_ok maxTokens (sentences_of text) c)
             \<and> (cur = [] \<or> chunk_ok maxTokens (sentences_of text) cur)"
    by (rule chunk_loop_inv [OF _ _ _ run]) simp_all
  have "chunk_ok maxTokens (sentences_of text) c"
  proof (cases "c \<in> set chunks")
    case True
    with inv show ?thesis by blast
  next
    case False
    with assms run have c: "c = trim cur" and ne: "trim cur \<noteq> []"
      by (auto simp: splitTextIntoChunks_def split: if_splits)
    have "trim [] = []" by (simp add: trim_def)
    with ne have "cur \<noteq> []" by auto
    with inv have "chunk_ok maxTokens (sentences_of text) cur" by blast
    then show ?thesis unfolding c by (rule chunk_ok_trim)
  qed
  then show ?thesis by (simp add: chunk_ok_def)
qed

lemma split_example: "splitTextIntoChunks ''ab.cd'' 1 = [''ab. cd'']"
  by (simp add: splitTextIntoChunks_def sentences_of_def trim_def is_space_def is_terminator_def)

lemma sentences_example: "sentences_of ''ab.cd'' = [''ab'', ''cd'']"
  by (simp add: sentences_of_def trim_def is_space_def is_terminator_def)

theorem splitTextIntoChunks_bound_witness:
  "''ab. cd'' \<in> set (splitTextIntoChunks ''ab.cd'' 1)
   \<and> real (length ''ab. cd'') / 4 \<le> 1 + 1 / 2"
  using splitTextIntoChunks_bound [of "''ab. cd''" "''ab.cd''" 1]
  by (simp add: split_example)

text \<open>
  The claim as the spec words it fails: with the limit 1, the text \<open>ab.cd\<close> gives the
  one chunk \<open>ab. cd\<close> of two sentences, whose estimate is 6/4.
\<close>

theorem splitTextIntoChunks_limit_counterexample:
  "splitTextIntoChunks ''ab.cd'' 1 = [''ab. cd'']
   \<and> sentences_of ''ab.cd'' = [''ab'', ''cd'']
   \<and> real (length ''ab. cd'') / 4 > 1
   \<and> ''ab. cd'' \<notin> trim ` set (sentences_of ''ab.cd'')"
  by (simp add: split_example sentences_example trim_def is_space_def)

section \<open>Properties of the retry wrapper\<close>

declare withRetries_loop.simps [simp del]

lemma loop_success:
  "fn s = (Inr v, s') \<Longrightarrow> withRetries_loop fn m a s c = (Inr v, s', Suc c)"
  by (subst withRetries_loop.simps) simp

lemma loop_quota:
  "fn s = (Inl e, s') \<Longrightarrow> is_quota e \<Longrightarrow> withRetries_loop fn m a s c = (Inl quota_error, s', Suc c)"
  by (subst withRetries_loop.simps) simp

lemma loop_retry_429:
  "fn s = (Inl e, s') \<Longrightarrow> \<not> is_quota e \<Longrightarrow> status_of e = Some 429 \<Longrightarrow> a < m \<Longrightarrow>
   withRetries_loop fn m a s c = withRetries_loop fn m (a + 1) s' (Suc c)"
  by (subst withRetries_loop.simps) simp

lemma loop_calls: "Suc c \<le> snd (snd (withRetries_loop fn m a s c))"
proof (induction fn m a s c rule: withRetries_loop.induct)
  case (1 fn maxRetries attempt s calls)
  show ?case
  proof (cases "fn s")
    case (Pair r s')
    show ?thesis
    proof (cases r)
      case (Inr v)
      with Pair show ?thesis by (simp add: loop_success)
    next
      case (Inl err)
      note fs = Pair [unfolded Inl]
      show ?thesis
      proof (cases "is_quota err")
        case True
        with fs show ?thesis by (simp add: loop_quota)
      next
        case nq: False
        show ?thesis
        proof (cases "(status_of err = Some 429 \<or> is_5xx (status_of err)) \<and> attempt < maxRetries")
          case True
          then have step: "withRetries_loop fn maxRetries attempt s calls
                     = withRetries_loop fn maxRetries (attempt + 1) s' (Suc calls)"
            using fs nq by (subst withRetries_loop.simps) auto
          have "Suc (Suc calls) \<le> snd (snd (withRetries_loop fn maxRetries (attempt + 1) s' (Suc calls)))"
          proof (cases "status_of err = Some 429")
            case True
            with \<open>_ \<and> attempt < maxRetries\<close> show ?thesis
              using "1.IH"(1) [OF fs [symmetric] refl nq] by simp
          next
            case False
            with \<open>_ \<and> attempt < maxRetries\<close> show ?thesis
              using "1.IH"(2) [OF fs [symmetric] refl nq] by simp
          qed
          with step show ?thesis by simp
        next
          case False
          then show ?thesis using fs nq by (subst withRetries_loop.simps) auto
        qed
      qed
    qed
  qed
qed

lemma withRetries_three_attempts:
  assumes "fn s0 = (Inl e1, s1)" "fn s1 = (Inl e2, s2)" "fn s2 = (Inr v, s3)"
    and "status_of e1 = Some 429" "\<not> is_quota e1" "status_of e2 = Some 429" "\<not> is_quota e2"
    and "2 \<le> maxRetries_of options"
  shows "withRetries fn options s0 = (Inr v, s3, 3)"
proof -
  let ?m = "maxRetries_of options"
  have "withRetries fn options s0 = withRetries_loop fn ?m 0 s0 0" by (simp add: withRetries_def)
  also have "\<dots> = withRetries_loop fn ?m (0 + 1) s1 (Suc 0)"
    using loop_retry_429 [of fn s0 e1 s1 0 ?m 0] assms by simp
  also have "\<dots> = withRetries_loop fn ?m (0 + 1 + 1) s2 (Suc (Suc 0))"
    using loop_retry_429 [of fn s1 e2 s2 "0 + 1" ?m "Suc 0"] assms by simp
  also have "\<dots> = (Inr v, s3, Suc (Suc (Suc 0)))"
    using loop_success [of fn s2 v s3 ?m "0 + 1 + 1" "Suc (Suc 0)"] assms by simp
  also have "\<dots> = (Inr v, s3, 3)" by (simp add: numeral_3_eq_3)
  finally show ?thesis .
qed

lemma quota_test_infix:
  assumes "c1 \<in> {CHR ''q'', CHR ''Q''}" "c2 \<in> {CHR ''u'', CHR ''U''}" "c3 \<in> {CHR ''o'', CHR ''O''}"
    "c4 \<in> {CHR ''t'', CHR ''T''}" "c5 \<in> {CHR ''a'', CHR ''A''}"
  shows "quota_test (pre @ [c1, c2, c3, c4, c5] @ post)"
proof (induction pre)
  case Nil
  from assms show ?case by auto
next
  case (Cons x pre)
  then show ?case by simp
qed

lemma is_quota_by_code:
  assumes "err_code e = Some ''insufficient_quota''
     \<or> (err_code e \<in> {None, Some []} \<and> err_error_code e = Some ''insufficient_quota'')
     \<or> (err_code e \<in> {None, Some []} \<and> err_error_code e \<in> {None, Some []}
         \<and> err_response_error_code e = Some ''insufficient_quota'')"
  shows "is_quota e"
  using assms by (auto simp: is_quota_def code_of_def or_str_def truthy_str_def)

lemma is_quota_by_message:
  assumes "err_message e = Some m \<or> (err_message e \<in> {None, Some []} \<and> err_error_message e = Some m)"
    and "quota_test m"
  shows "is_quota e"
proof -
  from assms(2) have "m \<noteq> []" by auto
  with assms have "message_of e = m"
    by (auto simp: message_of_def or_str_def truthy_str_def)
  with assms(2) show ?thesis by (simp add: is_quota_def)
qed

lemma quota_error_fields:
  "quota_error = \<lparr>err_status = Some 429, err_response_status = None,
      err_code = Some ''insufficient_quota'', err_error_code = None,
      err_response_error_code = None, err_message = Some ''OpenAI quota exceeded'',
      err_error_message = None\<rparr>"
  by (simp add: quota_error_def new_Error_def)

text \<open>
  Claim C4: an operation that throws a 429 that is not a quota error on its first two
  invocations and returns on the third makes \<open>withRetries\<close>, called as every call site
  of the service calls it (no options, so at most 5 retries), return that value after
  exactly 3 invocations. An operation whose first invocation throws a quota error is
  invoked exactly once, whatever the options, and \<open>withRetries\<close> throws the error
  \<open>OpenAI quota exceeded\<close> with status 429 and code \<open>insufficient_quota\<close>. A quota error is
  one whose code (the first non-empty of \<open>code\<close>, \<open>error.code\<close> and
  \<open>response.data.error.code\<close>) is \<open>insufficient_quota\<close>, or whose message (the first
  non-empty of \<open>message\<close> and \<open>error.message\<close>) holds the letters \<open>quota\<close> in either case.
\<close>

theorem withRetries_retry_policy:
  "(fn s0 = (Inl e1, s1) \<and> fn s1 = (Inl e2, s2) \<and> fn s2 = (Inr v, s3)
      \<and> status_of e1 = Some 429 \<and> \<not> is_quota e1 \<and> status_of e2 = Some 429 \<and> \<not> is_quota e2
     \<longrightarrow> withRetries fn None s0 = (Inr v, s3, 3))
   \<and> (fn s0 = (Inl e, s')
       \<and> (err_code e = Some ''insufficient_quota''
          \<or> (err_code e \<in> {None, Some []} \<and> err_error_code e = Some ''insufficient_quota'')
          \<or> (err_code e \<in> {None, Some []} \<and> err_error_code e \<in> {None, Some []}
              \<and> err_response_error_code e = Some ''insufficient_quota'')
          \<or> ((err_message e = Some m \<or> (err_message e \<in> {None, Some []} \<and> err_error_message e = Some m))
              \<and> m = pre @ [c1, c2, c3, c4, c5] @ post
              \<and> c1 \<in> {CHR ''q'', CHR ''Q''} \<and> c2 \<in> {CHR ''u'', CHR ''U''}
              \<and> c3 \<in> {CHR ''o'', CHR ''O''} \<and> c4 \<in> {CHR ''t'', CHR ''T''}
              \<and> c5 \<in> {CHR ''a'', CHR ''A''}))
     \<longrightarrow> withRetries fn options s0
          = (Inl \<lparr>err_status = Some 429, err_response_status = None,
                   err_code = Some ''insufficient_quota'', err_error_code = None,
                   err_response_error_code = None, err_message = Some ''OpenAI quota exceeded'',
                   err_error_message = None\<rparr>, s', 1))"
proof (intro conjI impI)
  assume "fn s0 = (Inl e1, s1) \<and> fn s1 = (Inl e2, s2) \<and> fn s2 = (Inr v, s3)
      \<and> status_of e1 = Some 429 \<and> \<not> is_quota e1 \<and> status_of e2 = Some 429 \<and> \<not> is_quota e2"
  then show "withRetries fn None s0 = (Inr v, s3, 3)"
    by (intro withRetries_three_attempts [of fn s0 e1 s1 e2 s2 v s3]) (simp_all add: maxRetries_of_def)
next
  assume h: "fn s0 = (Inl e, s')
       \<and> (err_code e = Some ''insufficient_quota''
          \<or> (err_code e \<in> {None, Some []} \<and> err_error_code e = Some ''insufficient_quota'')
          \<or> (err_code e \<in> {None, Some []} \<and> err_error_code e \<in> {None, Some []}
              \<and> err_response_error_code e = Some ''insufficient_quota'')
          \<or> ((err_message e = Some m \<or> (err_message e \<in> {None, Some []} \<and> err_error_message e = Some m))
              \<and> m = pre @ [c1, c2, c3, c4, c5] @ post
              \<and> c1 \<in> {CHR ''q'', CHR ''Q''} \<and> c2 \<in> {CHR ''u'', CHR ''U''}
              \<and> c3 \<in> {CHR ''o'', CHR ''O''} \<and> c4 \<in> {CHR ''t'', CHR ''T''}
              \<and> c5 \<in> {CHR ''a'', CHR ''A''}))"
  then have f: "fn s0 = (Inl e, s')" by simp
  from h consider
      (code) "err_code e = Some ''insufficient_quota''
          \<or> (err_code e \<in> {None, Some []} \<and> err_error_code e = Some ''insufficient_quota'')
          \<or> (err_code e \<in> {None, Some []} \<and> err_error_code e \<in> {None, Some []}
              \<and> err_response_error_code e = Some ''insufficient_quota'')"
    | (message) "err_message e = Some m \<or> (err_message e \<in> {None, Some []} \<and> err_error_message e = Some m)"
        "m = pre @ [c1, c2, c3, c4, c5] @ post"
        "c1 \<in> {CHR ''q'', CHR ''Q''}" "c2 \<in> {CHR ''u'', CHR ''U''}"
        "c3 \<in> {CHR ''o'', CHR ''O''}" "c4 \<in> {CHR ''t'', CHR ''T''}" "c5 \<in> {CHR ''a'', CHR ''A''}"
    by blast
  then have q: "is_quota e"
  proof cases
    case code
    then show ?thesis by (rule is_quota_by_code)
  next
    case message
    from quota_test_infix [OF message(3-7), of pre post] message(2) have "quota_test m" by simp
    with message(1) show ?thesis by (rule is_quota_by_message)
  qed
  from loop_quota [of fn s0 e s' "maxRetries_of options" 0 0] f q
  have "withRetries fn options s0 = (Inl quota_error, s', 1)" by (simp add: withRetries_def)
  then show "withRetries fn options s0
          = (Inl \<lparr>err_status = Some 429, err_response_status = None,
                   err_code = Some ''insufficient_quota'', err_error_code = None,
                   err_response_error_code = None, err_message = Some ''OpenAI quota exceeded'',
                   err_error_message = None\<rparr>, s', 1)"
    by (simp add: quota_error_fields)
qed

lemma rate_limited_facts: "status_of rate_limited = Some 429" "\<not> is_quota rate_limited"
  by (simp_all add: rate_limited_def status_of_def or_num_def truthy_num_def is_quota_def
        code_of_def or_str_def truthy_str_def message_of_def new_Error_def)

text \<open>
  Three runs: two rate limits and then the value 42; a first error told as a quota error
  by its code alone (its message does not name a quota); and a first error told by its
  message alone, in capitals.
\<close>

theorem withRetries_retry_policy_witness:
  "withRetries (scripted ()) None [Inl rate_limited, Inl rate_limited, Inr (42::nat)] = (Inr 42, [], 3)
   \<and> err_code billing_stop = Some ''insufficient_quota''
   \<and> err_message billing_stop = Some ''Billing hard limit reached''
   \<and> withRetries (scripted ()) None [Inl billing_stop, Inr (42::nat)]
       = (Inl \<lparr>err_status = Some 429, err_response_status = None,
                err_code = Some ''insufficient_quota'', err_error_code = None,
                err_response_error_code = None, err_message = Some ''OpenAI quota exceeded'',
                err_error_message = None\<rparr>, [Inr 42], 1)
   \<and> withRetries (scripted ()) None [Inl (new_Error ''Monthly QUOTA used up''), Inr (42::nat)]
       = (Inl \<lparr>err_status = Some 429, err_response_status = None,
                err_code = Some ''insufficient_quota'', err_error_code = None,
                err_response_error_code = None, err_message = Some ''OpenAI quota exceeded'',
                err_error_message = None\<rparr>, [Inr 42], 1)"
proof -
  from withRetries_retry_policy [of "scripted ()" "[Inl rate_limited, Inl rate_limited, Inr (42::nat)]"
      rate_limited "[Inl rate_limited, Inr 42]" rate_limited "[Inr 42]" 42 "[]"]
  have a: "withRetries (scripted ()) None [Inl rate_limited, Inl rate_limited, Inr (42::nat)] = (Inr 42, [], 3)"
    by (simp add: rate_limited_facts)
  have c: "err_code billing_stop = Some ''insufficient_quota''"
    "err_message billing_stop = Some ''Billing hard limit reached''"
    by (simp_all add: billing_stop_def new_Error_def)
  from withRetries_retry_policy [where fn = "scripted ()" and ?s0.0 = "[Inl billing_stop, Inr (42::nat)]"
      and e = billing_stop and s' = "[Inr 42]" and options = None] c(1)
  have b: "withRetries (scripted ()) None [Inl billing_stop, Inr (42::nat)]
       = (Inl \<lparr>err_status = Some 429, err_response_status = None,
                err_code = Some ''insufficient_quota'', err_error_code = None,
                err_response_error_code = None, err_message = Some ''OpenAI quota exceeded'',
                err_error_message = None\<rparr>, [Inr 42], 1)"
    by simp
  have m: "err_message (new_Error ''Monthly QUOTA used up'') = Some ''Monthly QUOTA used up''"
    by (simp add: new_Error_def)
  from withRetries_retry_policy [where fn = "scripted ()"
      and ?s0.0 = "[Inl (new_Error ''Monthly QUOTA used up''), Inr (42::nat)]"
      and e = "new_Error ''Monthly QUOTA used up''" and s' = "[Inr 42]" and options = None
      and m = "''Monthly QUOTA used up''" and pre = "''Monthly ''" and post = "'' used up''"
      and ?c1.0 = "CHR ''Q''" and ?c2.0 = "CHR ''U''" and ?c3.0 = "CHR ''O''" and ?c4.0 = "CHR ''T''"
      and ?c5.0 = "CHR ''A''"] m
  have d: "withRetries (scripted ()) None [Inl (new_Error ''Monthly QUOTA used up''), Inr (42::nat)]
       = (Inl \<lparr>err_status = Some 429, err_response_status = None,
                err_code = Some ''insufficient_quota'', err_error_code = None,
                err_response_error_code = None, err_message = Some ''OpenAI quota exceeded'',
                err_error_message = None\<rparr>, [Inr 42], 1)"
    by simp
  from a b c d show ?thesis by (intro conjI)
qed

section \<open>Properties of the embedding client\<close>

lemma filter_blank_all:
  "\<forall>t\<in>set texts. trim t = [] \<Longrightarrow> filter (\<lambda>text. length (trim text) > 0) texts = []"
  by (induction texts) auto

text \<open>
  Claim C5, as the code has it: when every text of the input is empty or white space
  only (the empty input included), \<open>generateEmbeddings\<close> returns the empty list, without
  a call to the provider and without an error.
\<close>

theorem generateEmbeddings_all_blank:
  assumes "\<forall>t\<in>set texts. trim t = []"
  shows "generateEmbeddings create texts s = (Inr [], s, 0)"
  using filter_blank_all [OF assms] by (simp add: generateEmbeddings_def)

theorem generateEmbeddings_all_blank_witness:
  "trim ''   '' = [] \<and> trim [] = []
   \<and> generateEmbeddings scripted [''   '', []] [Inl rate_limited] = (Inr [], [Inl rate_limited], 0)"
proof -
  have b: "trim ''   '' = []" "trim [] = []" by (simp_all add: trim_def is_space_def)
  then have "\<forall>t\<in>set [''   '', []]. trim t = []" by simp
  from generateEmbeddings_all_blank [OF this, of scripted "[Inl rate_limited]"] b
  show ?thesis by simp
qed

text \<open>
  The claim as the spec words it fails: for the one text of three blanks the function
  returns \<open>[]\<close>; it does not throw.
\<close>

theorem generateEmbeddings_blank_counterexample:
  "generateEmbeddings scripted [''   ''] [Inl rate_limited] = (Inr [], [Inl rate_limited], 0)"
  by (simp add: generateEmbeddings_def trim_def is_space_def)

lemma filter_nonblank_all:
  "\<forall>t\<in>set texts. trim t \<noteq> [] \<Longrightarrow> filter (\<lambda>text. length (trim text) > 0) texts = texts"
  by (induction texts) auto

lemma generateEmbeddings_success:
  assumes "\<forall>t\<in>set texts. trim t \<noteq> []" and "texts \<noteq> []"
    and "withRetries (create (Batch texts)) None s = (Inr response, s', n)"
  shows "generateEmbeddings create texts s =
     (Inr (map (\<lambda>item. \<lparr>embedding = item,
                          tokens = perTextTokens_of (totalTokens_of response) (length texts)\<rparr>)
               (emb_data response)), s', n)"
  using assms(2,3) filter_nonblank_all [OF assms(1)]
  by (simp add: generateEmbeddings_def Let_def)

lemma upload_items_nth:
  assumes "i < length rs" "length rs \<le> length textChunks"
  shows "map (\<lambda>(index, response).
                   \<lparr>item_id = uuids index,
                    item_embedding = embedding response,
                    item_text = (if index < length textChunks then Some (textChunks ! index) else None),
                    item_documentId = documentId\<rparr>)
                 (enumerate 0 rs) ! i
         = \<lparr>item_id = uuids i, item_embedding = embedding (rs ! i),
            item_text = Some (textChunks ! i), item_documentId = documentId\<rparr>"
  using assms by (simp add: nth_enumerate_eq)

text \<open>
  Claim C7: for \<open>N\<close> chunk texts, none of them blank, that the provider answers (under
  the retry wrapper) with one vector per text, \<open>generateEmbeddings\<close> returns \<open>N\<close> results
  and the result at each index holds the vector the provider gave at that index; the
  upload route then pairs the chunk text at each index with that same vector. For
  \<open>N = 0\<close> the result is the empty list, with no call.
\<close>

theorem generateEmbeddings_index_aligned:
  assumes nonblank: "\<forall>t\<in>set texts. trim t \<noteq> []"
    and ok: "texts \<noteq> [] \<longrightarrow> withRetries (create (Batch texts)) None s = (Inr response, s', n)
                          \<and> length (emb_data response) = length texts"
  shows "\<exists>rs items.
           fst (generateEmbeddings create texts s) = Inr rs
         \<and> length rs = length texts
         \<and> (texts = [] \<longrightarrow> generateEmbeddings create texts s = (Inr [], s, 0))
         \<and> (\<forall>i<length texts. embedding (rs ! i) = emb_data response ! i)
         \<and> fst (upload_embed_step create uuids texts documentId s) = Inr items
         \<and> length items = length texts
         \<and> (\<forall>i<length texts. item_text (items ! i) = Some (texts ! i)
                              \<and> item_embedding (items ! i) = emb_data response ! i)"
proof (cases "texts = []")
  case True
  then show ?thesis by (simp add: generateEmbeddings_def upload_embed_step_def)
next
  case False
  with ok have w: "withRetries (create (Batch texts)) None s = (Inr response, s', n)"
    and len: "length (emb_data response) = length texts" by simp_all
  let ?rs = "map (\<lambda>item. \<lparr>embedding = item,
                          tokens = perTextTokens_of (totalTokens_of response) (length texts)\<rparr>)
               (emb_data response)"
  let ?items = "map (\<lambda>(index, response).
                   \<lparr>item_id = uuids index,
                    item_embedding = embedding response,
                    item_text = (if index < length texts then Some (texts ! index) else None),
                    item_documentId = documentId\<rparr>)
                 (enumerate 0 ?rs)"
  have g: "generateEmbeddings create texts s = (Inr ?rs, s', n)"
    using generateEmbeddings_success [of texts create s response s' n] nonblank False w by simp
  have u: "upload_embed_step create uuids texts documentId s = (Inr ?items, s', n)"
    by (simp add: upload_embed_step_def g)
  have lrs: "length ?rs = length texts" using len by simp
  have nth_rs: "\<forall>i<length texts. embedding (?rs ! i) = emb_data response ! i"
    using len by simp
  have nth_items: "\<forall>i<length texts. item_text (?items ! i) = Some (texts ! i)
                              \<and> item_embedding (?items ! i) = emb_data response ! i"
  proof (intro allI impI)
    fix i assume i: "i < length texts"
    then have "i < length ?rs" using lrs by simp
    from upload_items_nth [OF this, of texts uuids documentId] lrs
    have "?items ! i = \<lparr>item_id = uuids i, item_embedding = embedding (?rs ! i),
            item_text = Some (texts ! i), item_documentId = documentId\<rparr>" by simp
    with nth_rs i show "item_text (?items ! i) = Some (texts ! i)
                              \<and> item_embedding (?items ! i) = emb_data response ! i" by simp
  qed
  show ?thesis
    apply (rule exI [of _ ?rs], rule exI [of _ ?items])
    using g u lrs nth_rs nth_items False by simp
qed

lemma scripted_once:
  "withRetries (scripted request) None [Inr v] = (Inr v, [], 1)"
  by (simp add: withRetries_def loop_success)

theorem generateEmbeddings_index_aligned_witness:
  "trim ''alpha'' \<noteq> [] \<and> trim ''beta'' \<noteq> []
   \<and> withRetries (scripted (Batch [''alpha'', ''beta'']))  None
        [Inr \<lparr>emb_data = [[1, 0], [0, 1]], emb_usage_total_tokens = Some 5\<rparr>]
      = (Inr \<lparr>emb_data = [[1, 0], [0, 1]], emb_usage_total_tokens = Some 5\<rparr>, [], 1)
   \<and> (\<exists>rs items.
         fst (generateEmbeddings scripted [''alpha'', ''beta'']
                [Inr \<lparr>emb_data = [[1, 0], [0, 1]], emb_usage_total_tokens = Some 5\<rparr>]) = Inr rs
       \<and> length rs = 2 \<and> embedding (rs ! 0) = [1, 0] \<and> embedding (rs ! 1) = [0, 1]
       \<and> fst (upload_embed_step scripted numbered_id [''alpha'', ''beta''] ''doc-1''
                [Inr \<lparr>emb_data = [[1, 0], [0, 1]], emb_usage_total_tokens = Some 5\<rparr>]) = Inr items
       \<and> length items = 2
       \<and> item_text (items ! 0) = Some ''alpha'' \<and> item_embedding (items ! 0) = [1, 0]
       \<and> item_text (items ! 1) = Some ''beta'' \<and> item_embedding (items ! 1) = [0, 1])"
proof -
  let ?resp = "\<lparr>emb_data = [[1, 0], [0, 1]], emb_usage_total_tokens = Some 5\<rparr>"
  let ?texts = "[''alpha'', ''beta'']"
  have t: "trim ''alpha'' \<noteq> []" "trim ''beta'' \<noteq> []" by (simp_all add: trim_def is_space_def)
  then have nb: "\<forall>t\<in>set ?texts. trim t \<noteq> []" by simp
  have w: "withRetries (scripted (Batch ?texts)) None [Inr ?resp] = (Inr ?resp, [], 1)"
    by (rule scripted_once)
  then have ok: "?texts \<noteq> [] \<longrightarrow> withRetries (scripted (Batch ?texts)) None [Inr ?resp] = (Inr ?resp, [], 1)
                          \<and> length (emb_data ?resp) = length ?texts" by simp
  from generateEmbeddings_index_aligned [where texts = ?texts and create = scripted
      and s = "[Inr ?resp]" and response = ?resp and s' = "[]" and n = 1
      and uuids = numbered_id and documentId = "''doc-1''"] nb ok
  obtain rs items where
    a: "fst (generateEmbeddings scripted ?texts [Inr ?resp]) = Inr rs" "length rs = length ?texts"
       "\<forall>i<length ?texts. embedding (rs ! i) = emb_data ?resp ! i"
       "fst (upload_embed_step scripted numbered_id ?texts ''doc-1'' [Inr ?resp]) = Inr items"
       "length items = length ?texts"
       "\<forall>i<length ?texts. item_text (items ! i) = Some (?texts ! i)
                              \<and> item_embedding (items ! i) = emb_data ?resp ! i"
    by blast
  from a(3) have r0: "embedding (rs ! 0) = [1, 0]" and r1: "embedding (rs ! 1) = [0, 1]" by simp_all
  from a(6) have i0: "item_text (items ! 0) = Some ''alpha'' \<and> item_embedding (items ! 0) = [1, 0]"
    and i1: "item_text (items ! 1) = Some ''beta'' \<and> item_embedding (items ! 1) = [0, 1]" by simp_all
  show ?thesis
    apply (intro conjI t w)
    apply (rule exI [of _ rs], rule exI [of _ items])
    using a(1,2,4,5) r0 r1 i0 i1 by simp
qed

section \<open>Properties of the chat route\<close>

lemma relevant_none:
  "\<forall>r\<in>set rs. res_score r \<le> 0.7 \<Longrightarrow> relevant_results rs = []"
  by (induction rs) (auto simp: relevant_results_def)

text \<open>
  Claim C8: the context of the chat route is made of the texts of the search results
  whose score is strictly above 0.7, in their order and at most 5 of them, joined by a
  blank line (two line feeds). Every result kept is a search result above the threshold,
  and since the search returns at most 5 results every result above the threshold is
  kept. Of results with the scores 0.85, 0.72, 0.69 and 0.5 exactly the first two are
  kept.
\<close>

theorem chat_context_assembly:
  "contextChunks_of rs = map res_text (take 5 (filter (\<lambda>r. 0.7 < res_score r) rs))
   \<and> context_of rs = join [CHR 0x0A, CHR 0x0A] (contextChunks_of rs)
   \<and> length (contextChunks_of rs) \<le> 5
   \<and> (\<forall>r\<in>set (relevant_results rs). r \<in> set rs \<and> 0.7 < res_score r)
   \<and> (length rs \<le> 5 \<longrightarrow> (\<forall>r\<in>set rs. 0.7 < res_score r \<longrightarrow> r \<in> set (relevant_results rs)))
   \<and> (map res_score rs = [0.85, 0.72, 0.69, 0.5] \<longrightarrow> relevant_results rs = take 2 rs)"
proof (intro conjI)
  show "contextChunks_of rs = map res_text (take 5 (filter (\<lambda>r. 0.7 < res_score r) rs))"
    by (simp add: contextChunks_of_def relevant_results_def)
  show "context_of rs = join [CHR 0x0A, CHR 0x0A] (contextChunks_of rs)"
    by (simp add: context_of_def)
  show "length (contextChunks_of rs) \<le> 5"
    by (simp add: contextChunks_of_def relevant_results_def)
  show "\<forall>r\<in>set (relevant_results rs). r \<in> set rs \<and> 0.7 < res_score r"
  proof
    fix r assume "r \<in> set (relevant_results rs)"
    then have "r \<in> set (filter (\<lambda>r. 0.7 < res_score r) rs)"
      unfolding relevant_results_def by (rule in_set_takeD)
    then show "r \<in> set rs \<and> 0.7 < res_score r" by simp
  qed
  show "length rs \<le> 5 \<longrightarrow> (\<forall>r\<in>set rs. 0.7 < res_score r \<longrightarrow> r \<in> set (relevant_results rs))"
  proof
    assume "length rs \<le> 5"
    then have "length (filter (\<lambda>r. 0.7 < res_score r) rs) \<le> 5"
      using length_filter_le [of "\<lambda>r. 0.7 < res_score r" rs] by linarith
    then have "relevant_results rs = filter (\<lambda>r. 0.7 < res_score r) rs"
      by (simp add: relevant_results_def)
    then show "\<forall>r\<in>set rs. 0.7 < res_score r \<longrightarrow> r \<in> set (relevant_results rs)" by simp
  qed
  show "map res_score rs = [0.85, 0.72, 0.69, 0.5] \<longrightarrow> relevant_results rs = take 2 rs"
  proof
    assume m: "map res_score rs = [0.85, 0.72, 0.69, 0.5]"
    then obtain a b c d where rs: "rs = [a, b, c, d]" 
      and sc: "res_score a = 0.85" "res_score b = 0.72" "res_score c = 0.69" "res_score d = 0.5"
      by (auto simp: map_eq_Cons_conv)
    show "relevant_results rs = take 2 rs"
      unfolding rs by (simp add: relevant_results_def sc)
  qed
qed

theorem chat_context_assembly_witness:
  "relevant_results
     [\<lparr>res_id = ''c1'', res_text = ''first'', res_score = 0.85, res_metadata = []\<rparr>,
      \<lparr>res_id = ''c2'', res_text = ''second'', res_score = 0.72, res_metadata = []\<rparr>,
      \<lparr>res_id = ''c3'', res_text = ''third'', res_score = 0.69, res_metadata = []\<rparr>,
      \<lparr>res_id = ''c4'', res_text = ''fourth'', res_score = 0.5, res_metadata = []\<rparr>]
   = [\<lparr>res_id = ''c1'', res_text = ''first'', res_score = 0.85, res_metadata = []\<rparr>,
      \<lparr>res_id = ''c2'', res_text = ''second'', res_score = 0.72, res_metadata = []\<rparr>]
   \<and> context_of
     [\<lparr>res_id = ''c1'', res_text = ''first'', res_score = 0.85, res_metadata = []\<rparr>,
      \<lparr>res_id = ''c2'', res_text = ''second'', res_score = 0.72, res_metadata = []\<rparr>,
      \<lparr>res_id = ''c3'', res_text = ''third'', res_score = 0.69, res_metadata = []\<rparr>,
      \<lparr>res_id = ''c4'', res_text = ''fourth'', res_score = 0.5, res_metadata = []\<rparr>]
   = ''first'' @ [CHR 0x0A, CHR 0x0A] @ ''second''"
proof -
  let ?rs = "[\<lparr>res_id = ''c1'', res_text = ''first'', res_score = 0.85, res_metadata = []\<rparr>,
      \<lparr>res_id = ''c2'', res_text = ''second'', res_score = 0.72, res_metadata = []\<rparr>,
      \<lparr>res_id = ''c3'', res_text = ''third'', res_score = 0.69, res_metadata = []\<rparr>,
      \<lparr>res_id = ''c4'', res_text = ''fourth'', res_score = (0.5::real), res_metadata = []\<rparr>]"
  have m: "map res_score ?rs = [0.85, 0.72, 0.69, 0.5]" by simp
  from chat_context_assembly [of ?rs] m
  have r: "relevant_results ?rs = take 2 ?rs" by blast
  then show ?thesis
    by (simp add: context_of_def contextChunks_of_def)
qed

lemma withRetries_calls: "withRetries fn options s = (outcome, s', n) \<Longrightarrow> 1 \<le> n"
  using loop_calls [of 0 fn "maxRetries_of options" 0 s] by (simp add: withRetries_def)

text \<open>
  Claim C10: for a valid query, of ASCII characters, of an authenticated user whose
  search results all score at most 0.7, the context is the empty string and the references are the empty list;
  the handler still calls the completion endpoint (at least one invocation, under the
  retry wrapper), and because the empty context is falsy the request it sends holds the
  system prompt and the raw query as the user message, without the
  \<open>Context information:\<close> framing. The reply is either the answer, with no references,
  or the status 500 when the completion failed.
\<close>

theorem chat_post_no_relevant_context:
  assumes ascii: "ascii_text query"
    and q: "query \<noteq> []" "trim query \<noteq> []" "length query \<le> 1000"
    and emb: "generateEmbedding embed_create query s = (Inr er, s1, n1)"
    and srch: "chat_search_step env metric index db (embedding er) userId = Inr searchResults"
    and low: "\<forall>r\<in>set searchResults. res_score r \<le> 0.7"
  shows "context_of searchResults = [] \<and> references_of searchResults = []
    \<and> chat_messages (systemPrompt_of []) query (Some [])
        = [\<lparr>msg_role = System, msg_content = systemPrompt_of []\<rparr>,
           \<lparr>msg_role = User, msg_content = query\<rparr>]
    \<and> (\<exists>outcome s2 n2 reply db'.
          withRetries
            (chat_create \<lparr>req_messages = [\<lparr>msg_role = System, msg_content = systemPrompt_of []\<rparr>,
                                           \<lparr>msg_role = User, msg_content = query\<rparr>],
                          req_max_tokens = 1000, req_temperature = 0.7\<rparr>) None s1
            = (outcome, s2, n2)
        \<and> 1 \<le> n2
        \<and> chat_post env metric embed_create chat_create new_id index db (Some userId) query s
            = (reply, db', s2, n2)
        \<and> (case reply of Inr response \<Rightarrow> references response = []
                          | Inl failure \<Rightarrow> reply_status failure = 500))"
proof -
  have rel: "relevant_results searchResults = []" using low by (rule relevant_none)
  then have ctx: "context_of searchResults = []"
    by (simp add: context_of_def contextChunks_of_def)
  from rel have refs: "references_of searchResults = []" by (simp add: references_of_def)
  let ?msgs = "[\<lparr>msg_role = System, msg_content = systemPrompt_of []\<rparr>,
                \<lparr>msg_role = User, msg_content = query\<rparr>]"
  let ?req = "\<lparr>req_messages = ?msgs, req_max_tokens = 1000, req_temperature = 0.7\<rparr>"
  have msgs: "chat_messages (systemPrompt_of []) query (Some []) = ?msgs"
    by (simp add: chat_messages_def truthy_str_def)
  obtain outcome s2 n2 where w: "withRetries (chat_create ?req) None s1 = (outcome, s2, n2)"
    by (cases "withRetries (chat_create ?req) None s1") blast
  have n2: "1 \<le> n2" using w by (rule withRetries_calls)
  have "\<exists>completion.
    generateChatCompletion chat_create (systemPrompt_of []) query (Some []) s1 = (completion, s2, n2)"
    using w by (cases outcome) (auto simp: generateChatCompletion_def msgs Let_def)
  then obtain completion where gc:
    "generateChatCompletion chat_create (systemPrompt_of []) query (Some []) s1 = (completion, s2, n2)"
    by blast
  obtain reply db' where post:
    "chat_post env metric embed_create chat_create new_id index db (Some userId) query s
       = (reply, db', s2, n2)"
    and shape: "(case reply of Inr response \<Rightarrow> references response = []
                          | Inl failure \<Rightarrow> reply_status failure = 500)"
  proof (cases completion)
    case (Inl e)
    with q emb srch ctx refs gc that show ?thesis
      by (simp add: chat_post_def Let_def)
  next
    case (Inr a)
    obtain cr db2 where "createChatRecord db new_id userId query a = (cr, db2)"
      by (cases "createChatRecord db new_id userId query a")
    with Inr q emb srch ctx refs gc that show ?thesis
      by (simp add: chat_post_def Let_def)
  qed
  from ctx refs msgs w n2 post shape show ?thesis by blast
qed

section \<open>Properties of the vector stores\<close>

lemma index_search_owner:
  assumes "userId \<noteq> []"
    and "searchSimilarEmbeddings env metric index q topK (Some userId) = Inr results"
    and "r \<in> set results"
  shows "\<exists>v\<in>set (idx_records index). res_id r = vec_id v \<and> res_metadata r = vec_metadata v
            \<and> record_owner v = Some userId"
proof -
  let ?req = "\<lparr>q_vector = q, q_topK = topK, q_filter = Some (''userId'', userId)\<rparr>"
  from assms(1,2) obtain matches where im: "index_query metric index ?req = Some matches"
    and res: "results = map result_of_match matches"
    by (auto simp: searchSimilarEmbeddings_def truthy_str_def str_of_def Let_def
             split: if_splits option.splits)
  from res assms(3) obtain m where m: "m \<in> set matches" and r: "r = result_of_match m" by auto
  let ?made = "map (\<lambda>r. \<lparr>match_id = vec_id r, match_score = metric (q_vector ?req) (vec_values r),
                            match_metadata = vec_metadata r\<rparr>)
                     (filter (passes_filter (q_filter ?req)) (idx_records index))"
  from im have "matches = take topK (sort_key (\<lambda>m. - match_score m) ?made)"
    by (simp add: index_query_def split: if_splits)
  with m have "m \<in> set (sort_key (\<lambda>m. - match_score m) ?made)" by (auto dest: in_set_takeD)
  then have "m \<in> set ?made" by simp
  then obtain v where v: "v \<in> set (idx_records index)"
    and pf: "passes_filter (Some (''userId'', userId)) v"
    and mv: "m = \<lparr>match_id = vec_id v, match_score = metric q (vec_values v),
                            match_metadata = vec_metadata v\<rparr>" by auto
  from pf have "record_owner v = Some userId" by (simp add: passes_filter_def record_owner_def)
  with v r mv show ?thesis by (auto simp: result_of_match_def)
qed

lemma distinct_key_eq:
  "distinct (map f xs) \<Longrightarrow> x \<in> set xs \<Longrightarrow> y \<in> set xs \<Longrightarrow> f x = f y \<Longrightarrow> x = y"
  by (meson distinct_map inj_on_eq_iff)

lemma index_search_untagged:
  assumes "userId \<noteq> []" and "\<forall>v\<in>set (idx_records index). record_owner v = None"
    and "searchSimilarEmbeddings env metric index q topK (Some userId) = Inr results"
  shows "results = []"
proof (rule ccontr)
  assume "results \<noteq> []"
  then obtain r where "r \<in> set results" by (cases results) auto
  from index_search_owner [OF assms(1,3) this] assms(2) show False by auto
qed

lemma vector_of_item_untagged: "record_owner (vector_of_item item) = None"
  by (cases "item_text item") (simp_all add: record_owner_def vector_of_item_def)

lemma storeEmbeddings_untagged:
  assumes "\<forall>v\<in>set (idx_records index). record_owner v = None"
  shows "\<forall>v\<in>set (idx_records (snd (storeEmbeddings env index items))). record_owner v = None"
  using assms
  by (auto simp: storeEmbeddings_def index_upsert_def Let_def vector_of_item_untagged
           split: if_splits)

lemma db_search_throws:
  "searchSimilarEmbeddingsInDB db q topK userId
     = Inl (new_Error ''Failed to search embeddings in database'')"
  by (simp add: searchSimilarEmbeddingsInDB_def statement_accepted_def magnitude_scope_def)

text \<open>
  Claim C1: a search scoped to an owner (a user id that is given and not empty, which
  is when the source adds the filter) returns no chunk of another owner, in either
  variant, whatever the similarity of that chunk to the query.
  In the remote-index variant every result is a record of the index whose owner tag is
  that user, so that, the identifiers of the index being unique, no record with another
  tag or with none is among the results. \<open>storeEmbeddings\<close>, the one writer of the index,
  leaves every record without a tag; on an index it has written, the scoped search
  therefore returns no result at all.
  In the relational variant the search returns no result either: the database rejects
  its statement, and every call throws.
\<close>

theorem search_owner_isolation:
  assumes scoped: "userId \<noteq> []"
  shows
   "(searchSimilarEmbeddings env metric index q topK (Some userId) = Inr results \<longrightarrow>
       (\<forall>r\<in>set results. \<exists>v\<in>set (idx_records index).
            res_id r = vec_id v \<and> res_metadata r = vec_metadata v \<and> record_owner v = Some userId)
     \<and> (distinct (map vec_id (idx_records index)) \<longrightarrow>
          (\<forall>v\<in>set (idx_records index). record_owner v \<noteq> Some userId
                \<longrightarrow> vec_id v \<notin> res_id ` set results))
     \<and> ((\<forall>v\<in>set (idx_records index). record_owner v = None) \<longrightarrow> results = []))
  \<and> ((\<forall>v\<in>set (idx_records index). record_owner v = None) \<longrightarrow>
       (\<forall>v\<in>set (idx_records (snd (storeEmbeddings env index items))). record_owner v = None))
  \<and> searchSimilarEmbeddingsInDB db q topK (Some userId)
       = Inl (new_Error ''Failed to search embeddings in database'')"
proof (intro conjI impI ballI)
  fix r
  assume "searchSimilarEmbeddings env metric index q topK (Some userId) = Inr results"
    and "r \<in> set results"
  then show "\<exists>v\<in>set (idx_records index).
            res_id r = vec_id v \<and> res_metadata r = vec_metadata v \<and> record_owner v = Some userId"
    by (rule index_search_owner [OF scoped])
next
  fix v
  assume s: "searchSimilarEmbeddings env metric index q topK (Some userId) = Inr results"
    and dist: "distinct (map vec_id (idx_records index))"
    and v: "v \<in> set (idx_records index)" and other: "record_owner v \<noteq> Some userId"
  show "vec_id v \<notin> res_id ` set results"
  proof
    assume "vec_id v \<in> res_id ` set results"
    then obtain r where r: "r \<in> set results" and "res_id r = vec_id v" by auto
    with index_search_owner [OF scoped s r] obtain v' where
      v': "v' \<in> set (idx_records index)" "vec_id v' = vec_id v" "record_owner v' = Some userId"
      by auto
    from distinct_key_eq [OF dist v'(1) v v'(2)] v'(3) other show False by simp
  qed
next
  assume "searchSimilarEmbeddings env metric index q topK (Some userId) = Inr results"
    and "\<forall>v\<in>set (idx_records index). record_owner v = None"
  then show "results = []" using index_search_untagged [OF scoped] by blast
next
  fix v
  assume "\<forall>v\<in>set (idx_records index). record_owner v = None"
    and "v \<in> set (idx_records (snd (storeEmbeddings env index items)))"
  then show "record_owner v = None" using storeEmbeddings_untagged by blast
next
  show "searchSimilarEmbeddingsInDB db q topK (Some userId)
       = Inl (new_Error ''Failed to search embeddings in database'')"
    by (rule db_search_throws)
qed

lemma index_scoped_example:
  "searchSimilarEmbeddings remote_env dot_product example_index [1, 0] 5 (Some ''u1'')
     = Inr [\<lparr>res_id = ''c1'', res_text = ''Cats purr'', res_score = 0,
              res_metadata = [(''text'', ''Cats purr''), (''documentId'', ''d1''), (''userId'', ''u1'')]\<rparr>]"
  by (simp add: searchSimilarEmbeddings_def remote_env_def example_index_def truthy_str_def
        str_of_def index_query_def passes_filter_def dot_product_def result_of_match_def or_str_def)

lemma index_unscoped_example:
  "map res_id (case searchSimilarEmbeddings remote_env dot_product example_index [1, 0] 5 None of
        Inr results \<Rightarrow> results | Inl e \<Rightarrow> []) = [''c2'', ''c3'', ''c1'']"
  by (simp add: searchSimilarEmbeddings_def remote_env_def example_index_def truthy_str_def
        str_of_def index_query_def passes_filter_def dot_product_def result_of_match_def or_str_def)


lemma written_index_value:
  "written_index = \<lparr>idx_reachable = True,
      idx_records = [\<lparr>vec_id = ''c2'', vec_values = [1, 0],
                      vec_metadata = [(''text'', ''Dogs bark''), (''documentId'', ''d2'')]\<rparr>]\<rparr>"
  by (simp add: written_index_def storeEmbeddings_def remote_env_def empty_index_def dog_item_def
        vector_of_item_def index_upsert_def truthy_str_def)

lemma written_index_scoped:
  "searchSimilarEmbeddings remote_env dot_product written_index [1, 0] 5 (Some ''u1'') = Inr []"
  by (simp add: written_index_value searchSimilarEmbeddings_def remote_env_def truthy_str_def
        str_of_def index_query_def passes_filter_def)

lemma written_index_unscoped:
  "searchSimilarEmbeddings remote_env dot_product written_index [1, 0] 5 None
     = Inr [\<lparr>res_id = ''c2'', res_text = ''Dogs bark'', res_score = 1,
              res_metadata = [(''text'', ''Dogs bark''), (''documentId'', ''d2'')]\<rparr>]"
  by (simp add: written_index_value searchSimilarEmbeddings_def remote_env_def truthy_str_def
        str_of_def index_query_def passes_filter_def dot_product_def result_of_match_def or_str_def)

text \<open>
  The user \<open>u1\<close> searches for \<open>[1, 0]\<close>. On the index \<open>storeEmbeddings\<close> has written, the
  chunk of \<open>u2\<close> is the nearest to the query (the search without a filter returns it,
  with score 1) and the scoped search returns nothing. On an index whose records carry
  owner tags, the scoped search returns the record of \<open>u1\<close> only, the last of three by
  similarity. The relational search throws.
\<close>

theorem search_owner_isolation_witness:
  "''u1'' \<noteq> []
   \<and> list_all (\<lambda>v. record_owner v = None) (idx_records written_index)
   \<and> searchSimilarEmbeddings remote_env dot_product written_index [1, 0] 5 (Some ''u1'') = Inr []
   \<and> searchSimilarEmbeddings remote_env dot_product written_index [1, 0] 5 None
       = Inr [\<lparr>res_id = ''c2'', res_text = ''Dogs bark'', res_score = 1,
                res_metadata = [(''text'', ''Dogs bark''), (''documentId'', ''d2'')]\<rparr>]
   \<and> searchSimilarEmbeddings remote_env dot_product example_index [1, 0] 5 (Some ''u1'')
       = Inr [\<lparr>res_id = ''c1'', res_text = ''Cats purr'', res_score = 0,
                res_metadata = [(''text'', ''Cats purr''), (''documentId'', ''d1''), (''userId'', ''u1'')]\<rparr>]
   \<and> map res_id (case searchSimilarEmbeddings remote_env dot_product example_index [1, 0] 5 None of
        Inr results \<Rightarrow> results | Inl e \<Rightarrow> []) = [''c2'', ''c3'', ''c1'']
   \<and> (\<exists>v. v \<in> set (idx_records example_index) \<and> vec_id v = ''c1'' \<and> record_owner v = Some ''u1'')
   \<and> searchSimilarEmbeddingsInDB example_db [1, 0] 5 (Some ''u1'')
       = Inl (new_Error ''Failed to search embeddings in database'')"
proof -
  let ?ri = "\<lparr>res_id = ''c1'', res_text = ''Cats purr'', res_score = 0,
                res_metadata = [(''text'', ''Cats purr''), (''documentId'', ''d1''), (''userId'', ''u1'')]\<rparr>"
  have u: "''u1'' \<noteq> []" by simp
  have e: "\<forall>v\<in>set (idx_records empty_index). record_owner v = None" by (simp add: empty_index_def)
  from search_owner_isolation [OF u, where index = empty_index and env = remote_env
      and items = "[dog_item]"] e
  have "\<forall>v\<in>set (idx_records written_index). record_owner v = None"
    unfolding written_index_def by blast
  then have w: "list_all (\<lambda>v. record_owner v = None) (idx_records written_index)"
    by (simp add: list_all_iff)
  from search_owner_isolation [OF u, of remote_env dot_product example_index "[1, 0]" 5 "[?ri]"]
    index_scoped_example
  have "\<exists>v\<in>set (idx_records example_index).
          res_id ?ri = vec_id v \<and> res_metadata ?ri = vec_metadata v \<and> record_owner v = Some ''u1''"
    by simp
  then have a: "\<exists>v. v \<in> set (idx_records example_index) \<and> vec_id v = ''c1'' \<and> record_owner v = Some ''u1''"
    by auto
  from search_owner_isolation [OF u, where db = example_db and q = "[1, 0]" and topK = 5]
  have d: "searchSimilarEmbeddingsInDB example_db [1, 0] 5 (Some ''u1'')
       = Inl (new_Error ''Failed to search embeddings in database'')" by blast
  from u w a d written_index_scoped written_index_unscoped index_scoped_example index_unscoped_example
  show ?thesis by (intro conjI)
qed

text \<open>
  Claim C2 does not hold of the code. \<open>storeEmbeddings\<close> is not given the owner and
  writes the metadata \<open>{text, documentId}\<close> only: the record stored for a chunk has no
  owner tag (neither \<open>userId\<close>, the field the search filter and
  \<open>deleteEmbeddingsByUserId\<close> read, nor \<open>ownerId\<close>), so the search scoped to any user
  does not find it, while the search without a filter does.
\<close>

theorem storeEmbeddings_writes_no_owner:
  "storeEmbeddings remote_env empty_index [bird_item]
     = (Inr (), \<lparr>idx_reachable = True,
                 idx_records = [\<lparr>vec_id = ''c3'', vec_values = [1, 0],
                                 vec_metadata = [(''text'', ''Birds sing''), (''documentId'', ''d1'')]\<rparr>]\<rparr>)
   \<and> record_owner (vector_of_item bird_item) = None
   \<and> map_of (vec_metadata (vector_of_item bird_item)) ''ownerId'' = None
   \<and> searchSimilarEmbeddings remote_env dot_product
        (snd (storeEmbeddings remote_env empty_index [bird_item])) [1, 0] 5 (Some ''u1'') = Inr []
   \<and> searchSimilarEmbeddings remote_env dot_product
        (snd (storeEmbeddings remote_env empty_index [bird_item])) [1, 0] 5 None
      = Inr [\<lparr>res_id = ''c3'', res_text = ''Birds sing'', res_score = 1,
               res_metadata = [(''text'', ''Birds sing''), (''documentId'', ''d1'')]\<rparr>]"
  by (simp add: storeEmbeddings_def remote_env_def empty_index_def bird_item_def vector_of_item_def
        index_upsert_def truthy_str_def record_owner_def searchSimilarEmbeddings_def str_of_def
        index_query_def passes_filter_def dot_product_def result_of_match_def or_str_def)

text \<open>
  Claim C3 does not hold of the code. With the API key set and the index unreachable
  when a document is uploaded, the store step falls back to the database, where the
  chunk now is, and reports \<open>database\<close>; the index holds nothing. The chat route, which
  chooses by the API key alone, then searches the index only: it finds nothing once the
  index is back, and fails while it is not.
\<close>

theorem fallback_store_not_searched:
  "upload_store_step remote_env unreachable_index (example_db\<lparr>db_chunks := []\<rparr>) [bird_item]
     = (Inr ''database'', unreachable_index,
        example_db\<lparr>db_chunks := [\<lparr>chunk_id = ''c3'', chunk_documentId = ''d1'',
                                    chunk_text = ''Birds sing'', chunk_embedding = [1, 0]\<rparr>]\<rparr>)
   \<and> chat_search_step remote_env dot_product empty_index
        (example_db\<lparr>db_chunks := [\<lparr>chunk_id = ''c3'', chunk_documentId = ''d1'',
                                    chunk_text = ''Birds sing'', chunk_embedding = [1, 0]\<rparr>]\<rparr>)
        [1, 0] ''u1''
      = searchSimilarEmbeddings remote_env dot_product empty_index [1, 0] 5 (Some ''u1'')
   \<and> searchSimilarEmbeddings remote_env dot_product empty_index [1, 0] 5 (Some ''u1'') = Inr []
   \<and> chat_search_step remote_env dot_product unreachable_index
        (example_db\<lparr>db_chunks := [\<lparr>chunk_id = ''c3'', chunk_documentId = ''d1'',
                                    chunk_text = ''Birds sing'', chunk_embedding = [1, 0]\<rparr>]\<rparr>)
        [1, 0] ''u1'' = Inl (new_Error ''Failed to search embeddings'')"
  by (simp add: upload_store_step_def storeEmbeddings_def storeEmbeddingsInDB_def remote_env_def
        unreachable_index_def empty_index_def example_db_def bird_item_def vector_of_item_def
        index_upsert_def truthy_str_def chat_search_step_def searchSimilarEmbeddings_def str_of_def
        index_query_def passes_filter_def)

section \<open>Properties of the quiz route\<close>

lemma question_filter_shape:
  "question_filter q \<Longrightarrow>
     (\<exists>opts. get_property q ''options'' = Some (JArr opts) \<and> length opts = 4)
     \<and> (\<exists>n. get_property q ''correctAnswer'' = Some (JNum n))
     \<and> truthy_json (get_property q ''question'')"
  by (auto simp: question_filter_def split: option.splits json.splits)

lemma quiz_post_validated:
  assumes "quiz_post user documentId numQuestions document documentChunks generate = Inr response"
  shows "1 \<le> numQuestions \<and> questions response \<noteq> []
         \<and> (\<exists>quizQuestions. questions response
               = take (nat \<lfloor>numQuestions\<rfloor>) (filter question_filter quizQuestions))"
  using assms
  by (auto simp: quiz_post_def Let_def split: option.splits sum.splits json.splits if_splits)

text \<open>
  Claim C9, as the code has it: every question the quiz route returns has a truthy
  question, exactly 4 options and a \<open>correctAnswer\<close> that is a number (its range and
  its being an integer are not checked); the questions returned are at least one and at
  most \<open>numQuestions\<close>.
\<close>

theorem quiz_post_questions_shape:
  assumes "quiz_post user documentId numQuestions document documentChunks generate = Inr response"
  shows "(\<forall>q\<in>set (questions response).
            (\<exists>opts. get_property q ''options'' = Some (JArr opts) \<and> length opts = 4)
          \<and> (\<exists>n. get_property q ''correctAnswer'' = Some (JNum n))
          \<and> truthy_json (get_property q ''question''))
       \<and> real (length (questions response)) \<le> numQuestions
       \<and> questions response \<noteq> []"
proof -
  from quiz_post_validated [OF assms] obtain quizQuestions where
    n: "1 \<le> numQuestions" and ne: "questions response \<noteq> []"
    and qs: "questions response = take (nat \<lfloor>numQuestions\<rfloor>) (filter question_filter quizQuestions)"
    by blast
  have "\<forall>q\<in>set (questions response). question_filter q"
    unfolding qs by (auto dest: in_set_takeD)
  then have shape: "\<forall>q\<in>set (questions response).
            (\<exists>opts. get_property q ''options'' = Some (JArr opts) \<and> length opts = 4)
          \<and> (\<exists>n. get_property q ''correctAnswer'' = Some (JNum n))
          \<and> truthy_json (get_property q ''question'')"
    using question_filter_shape by blast
  have "length (questions response) \<le> nat \<lfloor>numQuestions\<rfloor>" unfolding qs by simp
  then have "real (length (questions response)) \<le> real (nat \<lfloor>numQuestions\<rfloor>)" by simp
  also have "\<dots> \<le> numQuestions" using n by simp
  finally have "real (length (questions response)) \<le> numQuestions" .
  with shape ne show ?thesis by blast
qed

lemma quiz_example:
  "quiz_post (Some ''u1'') ''d1'' 5
      (Some \<lparr>doc_id = ''d1'', doc_name = ''cats.txt'', doc_userId = ''u1''\<rparr>)
      (Inr [\<lparr>chunk_id = ''c1'', chunk_documentId = ''d1'', chunk_text = ''Cats purr'',
              chunk_embedding = [0, 1]\<rparr>])
      (scripted_quiz (JArr [out_of_range_question]))
   = Inr \<lparr>questions = [out_of_range_question], documentName = ''cats.txt''\<rparr>"
  by (simp add: quiz_post_def scripted_quiz_def out_of_range_question_def question_filter_def
        get_property_def truthy_json_def)

text \<open>
  The claim as the spec words it fails: a question whose \<open>correctAnswer\<close> is 7 passes
  the filter and is returned.
\<close>

theorem quiz_post_range_counterexample:
  "quiz_post (Some ''u1'') ''d1'' 5
      (Some \<lparr>doc_id = ''d1'', doc_name = ''cats.txt'', doc_userId = ''u1''\<rparr>)
      (Inr [\<lparr>chunk_id = ''c1'', chunk_documentId = ''d1'', chunk_text = ''Cats purr'',
              chunk_embedding = [0, 1]\<rparr>])
      (scripted_quiz (JArr [out_of_range_question]))
   = Inr \<lparr>questions = [out_of_range_question], documentName = ''cats.txt''\<rparr>
   \<and> get_property out_of_range_question ''correctAnswer'' = Some (JNum 7)"
  by (simp add: quiz_example) (simp add: out_of_range_question_def get_property_def)

theorem quiz_post_questions_shape_witness:
  "quiz_post (Some ''u1'') ''d1'' 5
      (Some \<lparr>doc_id = ''d1'', doc_name = ''cats.txt'', doc_userId = ''u1''\<rparr>)
      (Inr [\<lparr>chunk_id = ''c1'', chunk_documentId = ''d1'', chunk_text = ''Cats purr'',
              chunk_embedding = [0, 1]\<rparr>])
      (scripted_quiz (JArr [out_of_range_question]))
   = Inr \<lparr>questions = [out_of_range_question], documentName = ''cats.txt''\<rparr>
   \<and> (\<exists>opts. get_property out_of_range_question ''options'' = Some (JArr opts) \<and> length opts = 4)
   \<and> (\<exists>n. get_property out_of_range_question ''correctAnswer'' = Some (JNum n))
   \<and> real (length [out_of_range_question]) \<le> 5"
  using quiz_post_questions_shape [OF quiz_example] quiz_example by simp


section \<open>A chat request with no relevant chunk\<close>

lemma embed_example:
  "generateEmbedding (on_fst scripted) ''What is a dog?''
         ([Inr \<lparr>emb_data = [[1, 0]], emb_usage_total_tokens = Some 4\<rparr>],
          [Inr \<lparr>choices = [Some ''No information '']\<rparr>])
       = (Inr \<lparr>embedding = [1, 0], tokens = 4\<rparr>, ([], [Inr \<lparr>choices = [Some ''No information '']\<rparr>]), 1)"
  by (simp add: generateEmbedding_def trim_def is_space_def withRetries_def loop_success on_fst_def
       totalTokens_of_def)

lemma remote_search_example:
  "chat_search_step remote_env dot_product example_index example_db
     (embedding \<lparr>embedding = [1, 0], tokens = 4\<rparr>) ''u1''
       = Inr [\<lparr>res_id = ''c1'', res_text = ''Cats purr'', res_score = 0,
               res_metadata = [(''text'', ''Cats purr''), (''documentId'', ''d1''), (''userId'', ''u1'')]\<rparr>]"
  using index_scoped_example by (simp add: chat_search_step_def remote_env_def truthy_str_def)

lemma written_search_example:
  "chat_search_step remote_env dot_product written_index example_db
     (embedding \<lparr>embedding = [1, 0], tokens = 4\<rparr>) ''u1'' = Inr []"
  using written_index_scoped by (simp add: chat_search_step_def remote_env_def truthy_str_def)

lemma chat_post_success:
  assumes "query \<noteq> []" "trim query \<noteq> []" "length query \<le> 1000"
    and "generateEmbedding embed_create query s = (Inr er, s1, n1)"
    and "chat_search_step env metric index db (embedding er) userId = Inr searchResults"
    and "generateChatCompletion chat_create (systemPrompt_of (context_of searchResults)) query
           (Some (context_of searchResults)) s1 = (Inr a, s2, n2)"
    and "createChatRecord db new_id userId query a = (Inr chat, db')"
  shows "chat_post env metric embed_create chat_create new_id index db (Some userId) query s
         = (Inr \<lparr>answer = a, references = references_of searchResults,
                  chatId = str_of (or_str (Some (chat_id chat)) (Some ''unknown''))\<rparr>, db', s2, n2)"
  using assms by (simp add: chat_post_def Let_def)

lemma completion_example:
  "generateChatCompletion (on_snd scripted) (systemPrompt_of []) ''What is a dog?'' (Some [])
              ([], [Inr \<lparr>choices = [Some ''No information '']\<rparr>])
            = (Inr ''No information'', ([], []), 1)"
  by (simp add: generateChatCompletion_def chat_messages_def truthy_str_def withRetries_def
        loop_success on_snd_def first_content_def str_of_def trim_def is_space_def)

lemma chat_record_example:
  "createChatRecord example_db ''chat-1'' ''u1'' ''What is a dog?'' ''No information''
     = (Inr \<lparr>chat_id = ''chat-1'', chat_userId = ''u1'',
              chat_query = ''What is a dog?'', chat_answer = ''No information''\<rparr>,
        example_db\<lparr>db_chats := [\<lparr>chat_id = ''chat-1'', chat_userId = ''u1'',
                     chat_query = ''What is a dog?'', chat_answer = ''No information''\<rparr>]\<rparr>)"
  by (simp add: createChatRecord_def example_db_def Let_def)

text \<open>
  The user \<open>u1\<close> asks \<open>What is a dog?\<close> with the API key set. On the index
  \<open>storeEmbeddings\<close> has written the search returns nothing; on the index with owner tags
  it returns the one chunk of \<open>u1\<close>, with score 0. Both times the completion endpoint is
  called once, with the raw query, and the reply has the answer and no reference.
\<close>

theorem chat_post_no_relevant_context_witness:
  "ascii_text ''What is a dog?'' \<and> trim ''What is a dog?'' \<noteq> []
   \<and> generateEmbedding (on_fst scripted) ''What is a dog?''
         ([Inr \<lparr>emb_data = [[1, 0]], emb_usage_total_tokens = Some 4\<rparr>],
          [Inr \<lparr>choices = [Some ''No information '']\<rparr>])
       = (Inr \<lparr>embedding = [1, 0], tokens = 4\<rparr>, ([], [Inr \<lparr>choices = [Some ''No information '']\<rparr>]), 1)
   \<and> chat_search_step remote_env dot_product written_index example_db [1, 0] ''u1'' = Inr []
   \<and> chat_search_step remote_env dot_product example_index example_db [1, 0] ''u1''
       = Inr [\<lparr>res_id = ''c1'', res_text = ''Cats purr'', res_score = 0,
               res_metadata = [(''text'', ''Cats purr''), (''documentId'', ''d1''), (''userId'', ''u1'')]\<rparr>]
   \<and> withRetries
        (on_snd scripted \<lparr>req_messages = [\<lparr>msg_role = System, msg_content = systemPrompt_of []\<rparr>,
                                            \<lparr>msg_role = User, msg_content = ''What is a dog?''\<rparr>],
                           req_max_tokens = 1000, req_temperature = 0.7\<rparr>)
        None ([], [Inr \<lparr>choices = [Some ''No information '']\<rparr>])
       = (Inr \<lparr>choices = [Some ''No information '']\<rparr>, ([], []), 1)
   \<and> chat_post remote_env dot_product (on_fst scripted) (on_snd scripted) ''chat-1''
        written_index example_db (Some ''u1'') ''What is a dog?''
        ([Inr \<lparr>emb_data = [[1, 0]], emb_usage_total_tokens = Some 4\<rparr>],
         [Inr \<lparr>choices = [Some ''No information '']\<rparr>])
       = (Inr \<lparr>answer = ''No information'', references = [], chatId = ''chat-1''\<rparr>,
          example_db\<lparr>db_chats := [\<lparr>chat_id = ''chat-1'', chat_userId = ''u1'',
                                    chat_query = ''What is a dog?'', chat_answer = ''No information''\<rparr>]\<rparr>,
          ([], []), 1)
   \<and> chat_post remote_env dot_product (on_fst scripted) (on_snd scripted) ''chat-1''
        example_index example_db (Some ''u1'') ''What is a dog?''
        ([Inr \<lparr>emb_data = [[1, 0]], emb_usage_total_tokens = Some 4\<rparr>],
         [Inr \<lparr>choices = [Some ''No information '']\<rparr>])
       = (Inr \<lparr>answer = ''No information'', references = [], chatId = ''chat-1''\<rparr>,
          example_db\<lparr>db_chats := [\<lparr>chat_id = ''chat-1'', chat_userId = ''u1'',
                                    chat_query = ''What is a dog?'', chat_answer = ''No information''\<rparr>]\<rparr>,
          ([], []), 1)"
proof -
  let ?q = "''What is a dog?''"
  let ?s = "([Inr \<lparr>emb_data = [[1, 0]], emb_usage_total_tokens = Some 4\<rparr>],
          [Inr \<lparr>choices = [Some ''No information '']\<rparr>])"
  let ?r = "\<lparr>res_id = ''c1'', res_text = ''Cats purr'', res_score = 0,
               res_metadata = [(''text'', ''Cats purr''), (''documentId'', ''d1''), (''userId'', ''u1'')]\<rparr>"
  let ?req = "\<lparr>req_messages = [\<lparr>msg_role = System, msg_content = systemPrompt_of []\<rparr>,
                                            \<lparr>msg_role = User, msg_content = ?q\<rparr>],
                           req_max_tokens = 1000, req_temperature = 0.7\<rparr>"
  have asc: "ascii_text ?q" by (simp add: ascii_text_def)
  have q: "?q \<noteq> []" "trim ?q \<noteq> []" "length ?q \<le> 1000"
    by (simp_all add: trim_def is_space_def)
  have low: "\<forall>r\<in>set [?r]. res_score r \<le> 0.7" by simp
  have none: "\<forall>r\<in>set ([] :: VectorSearchResult list). res_score r \<le> 0.7" by simp
  have w: "withRetries (on_snd scripted ?req) None ([], [Inr \<lparr>choices = [Some ''No information '']\<rparr>])
       = (Inr \<lparr>choices = [Some ''No information '']\<rparr>, ([], []), 1)"
    by (simp add: withRetries_def loop_success on_snd_def)
  from chat_post_no_relevant_context [where chat_create = "on_snd scripted" and new_id = "''chat-1''",
      OF asc q embed_example remote_search_example low]
  have c: "context_of [?r] = []" "references_of [?r] = []" by blast+
  from chat_post_no_relevant_context [where chat_create = "on_snd scripted" and new_id = "''chat-1''",
      OF asc q embed_example written_search_example none]
  have c0: "context_of [] = []" "references_of [] = []" by blast+
  have gc: "generateChatCompletion (on_snd scripted) (systemPrompt_of (context_of [?r])) ?q
              (Some (context_of [?r])) ([], [Inr \<lparr>choices = [Some ''No information '']\<rparr>])
            = (Inr ''No information'', ([], []), 1)"
    using completion_example c(1) by simp
  have gc0: "generateChatCompletion (on_snd scripted) (systemPrompt_of (context_of [])) ?q
              (Some (context_of [])) ([], [Inr \<lparr>choices = [Some ''No information '']\<rparr>])
            = (Inr ''No information'', ([], []), 1)"
    using completion_example c0(1) by simp
  have p1: "chat_post remote_env dot_product (on_fst scripted) (on_snd scripted) ''chat-1''
        example_index example_db (Some ''u1'') ?q ?s
       = (Inr \<lparr>answer = ''No information'', references = [], chatId = ''chat-1''\<rparr>,
          example_db\<lparr>db_chats := [\<lparr>chat_id = ''chat-1'', chat_userId = ''u1'',
                                    chat_query = ?q, chat_answer = ''No information''\<rparr>]\<rparr>,
          ([], []), 1)"
    using chat_post_success [OF q embed_example remote_search_example gc chat_record_example] c(2)
    by (simp add: or_str_def truthy_str_def str_of_def)
  have p0: "chat_post remote_env dot_product (on_fst scripted) (on_snd scripted) ''chat-1''
        written_index example_db (Some ''u1'') ?q ?s
       = (Inr \<lparr>answer = ''No information'', references = [], chatId = ''chat-1''\<rparr>,
          example_db\<lparr>db_chats := [\<lparr>chat_id = ''chat-1'', chat_userId = ''u1'',
                                    chat_query = ?q, chat_answer = ''No information''\<rparr>]\<rparr>,
          ([], []), 1)"
    using chat_post_success [OF q embed_example written_search_example gc0 chat_record_example] c0(2)
    by (simp add: or_str_def truthy_str_def str_of_def)
  have s1: "chat_search_step remote_env dot_product written_index example_db [1, 0] ''u1'' = Inr []"
    using written_search_example by simp
  have s2: "chat_search_step remote_env dot_product example_index example_db [1, 0] ''u1'' = Inr [?r]"
    using remote_search_example by simp
  from asc q(2) embed_example s1 s2 w p0 p1 show ?thesis by (intro conjI)
qed

end
